theory Spec2Isabelle
  imports Complex_Main
begin

section \<open>Numbers, dates and array helpers\<close>

text \<open>
  The TypeScript sources compute with JavaScript numbers.  They are modelled as exact
  reals: rounding, NaN and the infinities are outside the model.  Where the source
  divides by a value that may be zero and only reports the quotient, the field is a
  \<open>real option\<close> and \<open>None\<close> stands for a JavaScript result that is not a finite
  number.  Quantities produced by \<open>Math.floor\<close> are integers, counters are naturals.

  Dates are strings in the source and are read with \<open>new Date(s).getTime()\<close>; that
  library call is the parameter \<open>getTime\<close> (milliseconds since the epoch) of every
  function that needs it.
\<close>

definition js_div :: "real \<Rightarrow> real \<Rightarrow> real option" where
  "js_div a b = (if b = 0 then None else Some (a / b))"

definition math_pow :: "real \<Rightarrow> real \<Rightarrow> real option" where
  \<comment> \<open>\<open>Math.pow\<close> on finite arguments; a negative base has a power only for an
      integer exponent, zero has none for a negative exponent.\<close>
  "math_pow x y =
     (if x > 0 then Some (x powr y)
      else if x = 0 then (if y > 0 then Some 0 else if y = 0 then Some 1 else None)
      else if y = of_int \<lfloor>y\<rfloor> then Some (x powi \<lfloor>y\<rfloor>)
      else None)"

definition slice :: "'a list \<Rightarrow> nat \<Rightarrow> nat \<Rightarrow> 'a list" where
  \<comment> \<open>\<open>xs.slice(a, b)\<close> for indices \<open>0 \<le> a\<close>, \<open>0 \<le> b\<close>.\<close>
  "slice xs a b = take (b - a) (drop a xs)"

fun math_max :: "real list \<Rightarrow> real" where
  \<comment> \<open>\<open>Math.max(...xs)\<close>.  On no arguments JavaScript gives \<open>-Infinity\<close>; every call
      below passes the twenty values of a window.\<close>
  "math_max [] = 0"
| "math_max (x # xs) = fold max xs x"

fun math_min :: "real list \<Rightarrow> real" where
  "math_min [] = 0"
| "math_min (x # xs) = fold min xs x"

section \<open>Data model\<close>

record DailyCandle =
  symbol :: string
  date :: string
  opn :: real
  high :: real
  low :: real
  close :: real
  volume :: real

subsection \<open>Signal analyzer (\<open>src/lib/strategy.ts\<close>)\<close>

datatype SSTStatus = NEUTRAL | TRACKING | BUY_TRIGGERED

record SSTAnalysis =
  sst_symbol :: string
  sst_status :: SSTStatus
  sst_currentPrice :: real
  sst_twentyDayHigh :: real
  sst_twentyDayLow :: real
  sst_triggerDate :: "string option"
  sst_buyTriggerDate :: "string option"
  sst_distanceToTrigger :: "real option"

text \<open>The variables the replay loop of \<open>analyzeStock\<close> assigns.\<close>

record ScanState =
  status :: SSTStatus
  triggerDate :: "string option"
  buyTriggerDate :: "string option"
  scanTracking :: bool

definition prev20 :: "DailyCandle list \<Rightarrow> nat \<Rightarrow> DailyCandle list" where
  "prev20 candles i = slice candles (i - 20) i"

definition twentyDayHigh :: "DailyCandle list \<Rightarrow> nat \<Rightarrow> real" where
  "twentyDayHigh candles i = math_max (map high (prev20 candles i))"

definition twentyDayLow :: "DailyCandle list \<Rightarrow> nat \<Rightarrow> real" where
  "twentyDayLow candles i = math_min (map low (prev20 candles i))"

definition scanDay :: "DailyCandle list \<Rightarrow> nat \<Rightarrow> ScanState \<Rightarrow> ScanState" where
  \<comment> \<open>One iteration of the loop of \<open>analyzeStock\<close>, for day index \<open>i\<close>.\<close>
  "scanDay candles i s =
     (let day = candles ! i;
          dayTwentyDayHigh = twentyDayHigh candles i;
          dayTwentyDayLow = twentyDayLow candles i
      in if \<not> scanTracking s then
           (if low day \<le> dayTwentyDayLow
            then s\<lparr>scanTracking := True, triggerDate := Some (date day), status := TRACKING\<rparr>
            else s)
         else
           (let s1 = (if high day > dayTwentyDayHigh
                      then s\<lparr>status := BUY_TRIGGERED, buyTriggerDate := Some (date day),
                             scanTracking := False\<rparr>
                      else s)
            in if low day \<le> dayTwentyDayLow
               then s1\<lparr>triggerDate := Some (date day), status := TRACKING\<rparr>
               else s1))"

definition scanInit :: ScanState where
  "scanInit = \<lparr>status = NEUTRAL, triggerDate = None, buyTriggerDate = None,
               scanTracking = False\<rparr>"

definition scanUpto :: "DailyCandle list \<Rightarrow> nat \<Rightarrow> ScanState" where
  \<comment> \<open>The loop state once the days \<open>20 .. n - 1\<close> have been processed.\<close>
  "scanUpto candles n = fold (scanDay candles) [20..<n] scanInit"

definition analyzeStock :: "string \<Rightarrow> DailyCandle list \<Rightarrow> SSTAnalysis option" where
  "analyzeStock symb candles =
     (if length candles < 21 then None
      else
        let latest = candles ! (length candles - 1);
            lookbackCandles = slice candles (length candles - 21) (length candles - 1);
            tHigh = math_max (map high lookbackCandles);
            tLow = math_min (map low lookbackCandles);
            currentPrice = close latest;
            s = scanUpto candles (length candles)
        in Some \<lparr>sst_symbol = symb, sst_status = status s, sst_currentPrice = currentPrice,
                 sst_twentyDayHigh = tHigh, sst_twentyDayLow = tLow,
                 sst_triggerDate = triggerDate s, sst_buyTriggerDate = buyTriggerDate s,
                 sst_distanceToTrigger =
                   map_option (\<lambda>q. q * 100) (js_div (tHigh - currentPrice) currentPrice)\<rparr>)"

subsection \<open>Backtest simulator (\<open>runBacktest\<close>, current version)\<close>

text \<open>
  The source holds an older \<open>runBacktest\<close> too (targets tiered by buy number, one exit
  rule, an equity curve instead of the daily log).  The model is of the current one,
  \<open>runBacktest(symbol, candles, initialCapital, perTradeAmount, exitStrategy,
  targetProfitPercent, avgLevels)\<close>.  Every argument is explicit: the defaults of the
  TypeScript signature (500000, WEIGHTED_AVERAGE, 6, 3) are left to the caller, and only
  the optional \<open>perTradeAmount\<close> is an \<open>option\<close>, for the \<open>??\<close> in the body.
\<close>

datatype ExitStrategy = WEIGHTED_AVERAGE | LIFO

datatype ActivityType = BUY | SELL | SKIPPED

text \<open>An element of \<open>internalOpenPositions\<close>: one open lot.\<close>

record Position =
  buyDate :: string
  buyPrice :: real
  quantity :: int
  buyNumber :: nat
  targetPercent :: real

record OpenPosition = Position +
  currentPrice :: real
  currentValue :: real
  pnl :: real
  pnlPercent :: "real option"

record BacktestTrade =
  t_symbol :: string
  t_buyDate :: string
  t_buyPrice :: real
  t_sellDate :: string
  t_sellPrice :: real
  t_buyNumber :: nat
  t_targetPercent :: real
  t_profit :: real
  t_profitPercent :: "real option"
  t_holdingDays :: int

record TradeActivity =
  a_symbol :: string
  a_type :: ActivityType
  a_price :: real
  a_quantity :: int
  a_amount :: real
  a_buyNumber :: nat
  a_profit :: "real option"
  a_date :: string
  a_holdingDays :: "int option"
  a_purchaseDate :: "string option"

record DailyState =
  d_date :: string
  d_cash :: real
  d_invested :: real
  d_equity :: real
  d_profit :: real
  d_activities :: "TradeActivity list"

record BacktestResult =
  r_symbol :: string
  r_startDate :: string
  r_endDate :: string
  r_initialCapital :: real
  r_finalCapital :: real
  r_totalTrades :: nat
  r_winningTrades :: nat
  r_losingTrades :: nat
  r_winRate :: real
  r_totalProfit :: real
  r_totalProfitPercent :: "real option"
  r_cagr :: "real option"
  r_realizedProfit :: real
  r_unrealizedProfit :: real
  r_blockedCapital :: real
  r_maxDrawdown :: "real option"
  r_trades :: "BacktestTrade list"
  r_openPositions :: "OpenPosition list"
  r_dailyLog :: "DailyState list"

text \<open>
  The variables \<open>runBacktest\<close> mutates.  \<open>positionsToClose\<close> and \<open>activitiesToday\<close>
  are declared afresh in every iteration of the day loop; \<open>maxDrawdown\<close> is \<open>None\<close>
  once a drawdown of \<open>Infinity\<close> has been recorded.
\<close>

record SimState =
  cash :: real
  isTracking :: bool
  currentBuyNumber :: nat
  internalOpenPositions :: "Position list"
  maxEquity :: real
  maxDrawdown :: "real option"
  trades :: "BacktestTrade list"
  dailyLog :: "DailyState list"
  positionsToClose :: "nat list"
  activitiesToday :: "TradeActivity list"

definition holdingDaysOf :: "(string \<Rightarrow> int) \<Rightarrow> string \<Rightarrow> string \<Rightarrow> int" where
  "holdingDaysOf getTime buy sell =
     \<lceil>real_of_int (getTime sell - getTime buy) / (1000 * 60 * 60 * 24)\<rceil>"

definition closedTrade ::
  "(string \<Rightarrow> int) \<Rightarrow> string \<Rightarrow> DailyCandle \<Rightarrow> real \<Rightarrow> Position \<Rightarrow> BacktestTrade"
where
  \<comment> \<open>The \<open>BacktestTrade\<close> literal both exit branches build for a lot sold at \<open>sellPrice\<close>.\<close>
  "closedTrade getTime symb day sellPrice pos =
     \<lparr>t_symbol = symb, t_buyDate = buyDate pos, t_buyPrice = buyPrice pos,
      t_sellDate = date day, t_sellPrice = sellPrice,
      t_buyNumber = buyNumber pos, t_targetPercent = targetPercent pos,
      t_profit = (sellPrice - buyPrice pos) * real_of_int (quantity pos),
      t_profitPercent =
        map_option (\<lambda>q. q * 100) (js_div (sellPrice - buyPrice pos) (buyPrice pos)),
      t_holdingDays = holdingDaysOf getTime (buyDate pos) (date day)\<rparr>"

definition sellActivity ::
  "(string \<Rightarrow> int) \<Rightarrow> string \<Rightarrow> DailyCandle \<Rightarrow> real \<Rightarrow> Position \<Rightarrow> TradeActivity"
where
  \<comment> \<open>The \<open>SELL\<close> entry pushed to \<open>activitiesToday\<close> for the same lot.\<close>
  "sellActivity getTime symb day sellPrice pos =
     \<lparr>a_symbol = symb, a_type = SELL, a_price = sellPrice,
      a_quantity = quantity pos,
      a_amount = real_of_int (quantity pos) * sellPrice,
      a_buyNumber = buyNumber pos,
      a_profit = Some ((sellPrice - buyPrice pos) * real_of_int (quantity pos)),
      a_date = date day,
      a_holdingDays = Some (holdingDaysOf getTime (buyDate pos) (date day)),
      a_purchaseDate = Some (buyDate pos)\<rparr>"

definition closePosition ::
  "(string \<Rightarrow> int) \<Rightarrow> string \<Rightarrow> DailyCandle \<Rightarrow> real \<Rightarrow> nat \<Rightarrow> Position \<Rightarrow> SimState \<Rightarrow> SimState"
where
  \<comment> \<open>What both exit branches do for the lot \<open>pos\<close> at index \<open>idx\<close>, sold at \<open>sellPrice\<close>.\<close>
  "closePosition getTime symb day sellPrice idx pos s =
     s\<lparr>trades := trades s @ [closedTrade getTime symb day sellPrice pos],
       activitiesToday := activitiesToday s @ [sellActivity getTime symb day sellPrice pos],
       cash := cash s + real_of_int (quantity pos) * sellPrice,
       positionsToClose := positionsToClose s @ [idx]\<rparr>"

definition weightedAvgPrice :: "Position list \<Rightarrow> real" where
  "weightedAvgPrice ps =
     (let totalQty = foldl (\<lambda>sum p. sum + quantity p) 0 ps;
          totalCost = foldl (\<lambda>sum p. sum + real_of_int (quantity p) * buyPrice p) 0 ps
      in if totalQty > 0 then totalCost / real_of_int totalQty else 0)"

definition aggregateTargetPrice :: "Position list \<Rightarrow> real" where
  \<comment> \<open>Read only where the list is not empty.\<close>
  "aggregateTargetPrice ps =
     (let baseTargetPercent = targetPercent (ps ! 0)
      in weightedAvgPrice ps * (1 + baseTargetPercent / 100))"

definition targetPrice :: "Position \<Rightarrow> real" where
  "targetPrice pos = buyPrice pos * (1 + targetPercent pos / 100)"

definition checkSells ::
  "(string \<Rightarrow> int) \<Rightarrow> string \<Rightarrow> ExitStrategy \<Rightarrow> DailyCandle \<Rightarrow> SimState \<Rightarrow> SimState"
where
  \<comment> \<open>Step 2 of the day loop: the two exit branches.\<close>
  "checkSells getTime symb exitStrategy day s =
     (let ps = internalOpenPositions s
      in if exitStrategy = WEIGHTED_AVERAGE \<and> length ps > 0 then
           (if high day \<ge> aggregateTargetPrice ps
            then fold (\<lambda>(idx, pos). closePosition getTime symb day (aggregateTargetPrice ps) idx pos)
                   (enumerate 0 ps) s
            else s)
         else
           fold (\<lambda>(j, pos) s'. if high day \<ge> targetPrice pos
                                 then closePosition getTime symb day (targetPrice pos) j pos s'
                                 else s')
             (enumerate 0 ps) s)"

definition removeClosed :: "SimState \<Rightarrow> SimState" where
  \<comment> \<open>The \<open>filter\<close> on indices, then the reset of the buying sequence.\<close>
  "removeClosed s =
     (let s1 = s\<lparr>internalOpenPositions :=
                   map snd (filter (\<lambda>(idx, _). idx \<notin> set (positionsToClose s))
                                   (enumerate 0 (internalOpenPositions s)))\<rparr>
      in if length (internalOpenPositions s1) = 0 \<and> currentBuyNumber s1 > 0
         then s1\<lparr>currentBuyNumber := 0, isTracking := False\<rparr>
         else s1)"

definition checkEntry ::
  "string \<Rightarrow> real \<Rightarrow> real \<Rightarrow> real \<Rightarrow> DailyCandle \<Rightarrow> real \<Rightarrow> real \<Rightarrow> SimState \<Rightarrow> SimState"
where
  \<comment> \<open>Step 3 of the day loop.  With \<open>buyPrice = 0\<close> the JavaScript quantity is infinite
      or NaN and both comparisons with \<open>cash\<close> fail; here it is \<open>0\<close>: in both nothing is
      bought and nothing is logged.\<close>
  "checkEntry symb tradeAmount targetProfitPercent avgLevels day tHigh tLow s =
     (let s1 = (if low day \<le> tLow then s\<lparr>isTracking := True\<rparr> else s)
      in if isTracking s1 \<and> high day > tHigh then
           (let s2 =
              (if real (currentBuyNumber s1) < avgLevels then
                 (let s3 = s1\<lparr>currentBuyNumber := Suc (currentBuyNumber s1)\<rparr>;
                      tgt = targetProfitPercent;
                      price = tHigh;
                      qty = \<lfloor>tradeAmount / price\<rfloor>
                  in if qty > 0 \<and> cash s3 \<ge> real_of_int qty * price then
                       s3\<lparr>cash := cash s3 - real_of_int qty * price,
                          internalOpenPositions := internalOpenPositions s3 @
                            [\<lparr>buyDate = date day, buyPrice = price, quantity = qty,
                              buyNumber = currentBuyNumber s3, targetPercent = tgt\<rparr>],
                          activitiesToday := activitiesToday s3 @
                            [\<lparr>a_symbol = symb, a_type = BUY, a_price = price,
                              a_quantity = qty, a_amount = real_of_int qty * price,
                              a_buyNumber = currentBuyNumber s3, a_profit = None,
                              a_date = date day, a_holdingDays = None,
                              a_purchaseDate = None\<rparr>]\<rparr>
                     else if qty > 0 \<and> cash s3 < real_of_int qty * price then
                       s3\<lparr>activitiesToday := activitiesToday s3 @
                            [\<lparr>a_symbol = symb, a_type = SKIPPED, a_price = price,
                              a_quantity = 0, a_amount = 0,
                              a_buyNumber = currentBuyNumber s3, a_profit = None,
                              a_date = date day, a_holdingDays = None,
                              a_purchaseDate = None\<rparr>]\<rparr>
                     else s3)
               else s1)
            in s2\<lparr>isTracking := False\<rparr>)
         else s1)"

definition endOfDay :: "DailyCandle \<Rightarrow> SimState \<Rightarrow> SimState" where
  \<comment> \<open>Step 4 of the day loop.  The drawdown is a quotient by \<open>maxEquity\<close>: for
      \<open>maxEquity = 0\<close> JavaScript gives NaN (no update) when the equity is \<open>0\<close> too, and
      \<open>Infinity\<close> when the equity is negative.\<close>
  "endOfDay day s =
     (let invested = fold (\<lambda>pos inv. inv + real_of_int (quantity pos) * close day)
                       (internalOpenPositions s) 0;
          currentEquity = cash s + invested;
          s1 = (if currentEquity > maxEquity s then s\<lparr>maxEquity := currentEquity\<rparr> else s);
          s2 = (case maxDrawdown s1 of
                  None \<Rightarrow> s1
                | Some m \<Rightarrow>
                    if maxEquity s1 = 0
                    then (if currentEquity < 0 then s1\<lparr>maxDrawdown := None\<rparr> else s1)
                    else (let drawdown = ((maxEquity s1 - currentEquity) / maxEquity s1) * 100
                          in if drawdown > m then s1\<lparr>maxDrawdown := Some drawdown\<rparr> else s1))
      in s2\<lparr>dailyLog := dailyLog s2 @
               [\<lparr>d_date = date day, d_cash = cash s2, d_invested = invested,
                 d_equity = currentEquity, d_profit = 0,
                 d_activities = activitiesToday s2\<rparr>]\<rparr>)"

definition exitPhase ::
  "(string \<Rightarrow> int) \<Rightarrow> string \<Rightarrow> ExitStrategy \<Rightarrow> DailyCandle \<Rightarrow> SimState \<Rightarrow> SimState"
where
  \<comment> \<open>Steps 1-2 of a day: fresh \<open>positionsToClose\<close> and \<open>activitiesToday\<close>, the
      sells, the removal of the closed lots.\<close>
  "exitPhase getTime symb exitStrategy day s =
     removeClosed (checkSells getTime symb exitStrategy day
                     (s\<lparr>positionsToClose := [], activitiesToday := []\<rparr>))"

definition simulateDay ::
  "(string \<Rightarrow> int) \<Rightarrow> string \<Rightarrow> DailyCandle list \<Rightarrow> real \<Rightarrow> ExitStrategy \<Rightarrow> real \<Rightarrow> real
     \<Rightarrow> nat \<Rightarrow> SimState \<Rightarrow> SimState"
where
  \<comment> \<open>The body of the day loop for index \<open>i\<close>.\<close>
  "simulateDay getTime symb candles tradeAmount exitStrategy targetProfitPercent avgLevels i s =
     (let day = candles ! i;
          tHigh = twentyDayHigh candles i;
          tLow = twentyDayLow candles i;
          s2 = exitPhase getTime symb exitStrategy day s;
          s3 = checkEntry symb tradeAmount targetProfitPercent avgLevels day tHigh tLow s2
      in endOfDay day s3)"

definition simInit :: "real \<Rightarrow> SimState" where
  "simInit initialCapital =
     \<lparr>cash = initialCapital, isTracking = False, currentBuyNumber = 0,
      internalOpenPositions = [], maxEquity = initialCapital, maxDrawdown = Some 0,
      trades = [], dailyLog = [], positionsToClose = [], activitiesToday = []\<rparr>"

definition tradeAmountOf :: "real \<Rightarrow> real option \<Rightarrow> real" where
  \<comment> \<open>\<open>perTradeAmount ?? initialCapital / 50\<close>\<close>
  "tradeAmountOf initialCapital perTradeAmount =
     (case perTradeAmount of Some a \<Rightarrow> a | None \<Rightarrow> initialCapital / 50)"

definition simulateUpto ::
  "(string \<Rightarrow> int) \<Rightarrow> string \<Rightarrow> DailyCandle list \<Rightarrow> real \<Rightarrow> real option \<Rightarrow> ExitStrategy
     \<Rightarrow> real \<Rightarrow> real \<Rightarrow> nat \<Rightarrow> SimState"
where
  \<comment> \<open>The loop state once the days \<open>20 .. n - 1\<close> have been processed.\<close>
  "simulateUpto getTime symb candles initialCapital perTradeAmount exitStrategy
       targetProfitPercent avgLevels n =
     fold (simulateDay getTime symb candles (tradeAmountOf initialCapital perTradeAmount)
             exitStrategy targetProfitPercent avgLevels)
       [20..<n] (simInit initialCapital)"

definition toOpenPosition :: "real \<Rightarrow> Position \<Rightarrow> OpenPosition" where
  "toOpenPosition lastPrice pos =
     (let curValue = real_of_int (quantity pos) * lastPrice;
          costBasis = real_of_int (quantity pos) * buyPrice pos;
          pl = curValue - costBasis
      in \<lparr>buyDate = buyDate pos, buyPrice = buyPrice pos, quantity = quantity pos,
          buyNumber = buyNumber pos, targetPercent = targetPercent pos,
          currentPrice = lastPrice, currentValue = curValue, pnl = pl,
          pnlPercent = map_option (\<lambda>q. q * 100) (js_div pl costBasis)\<rparr>)"

definition durationYearsOf :: "(string \<Rightarrow> int) \<Rightarrow> DailyCandle list \<Rightarrow> real" where
  "durationYearsOf getTime candles =
     (let durationDays =
            real_of_int (getTime (date (candles ! (length candles - 1)))
                         - getTime (date (candles ! 20))) / (1000 * 60 * 60 * 24)
      in durationDays / 365.25)"

definition cagrOf :: "real \<Rightarrow> real \<Rightarrow> real \<Rightarrow> real option" where
  \<comment> \<open>The CAGR block of \<open>runBacktest\<close>; \<open>None\<close>: not a finite number.\<close>
  "cagrOf initialCapital finalCapital durationYears =
     (if durationYears > 0 \<and> finalCapital > 0 then
        (case js_div finalCapital initialCapital of
           None \<Rightarrow> None
         | Some q \<Rightarrow> map_option (\<lambda>p. (p - 1) * 100) (math_pow q (1 / durationYears)))
      else Some 0)"

definition runBacktest ::
  "(string \<Rightarrow> int) \<Rightarrow> string \<Rightarrow> DailyCandle list \<Rightarrow> real \<Rightarrow> real option \<Rightarrow> ExitStrategy
     \<Rightarrow> real \<Rightarrow> real \<Rightarrow> BacktestResult option"
where
  "runBacktest getTime symb candles initialCapital perTradeAmount exitStrategy
       targetProfitPercent avgLevels =
     (if length candles < 21 then None
      else
        let s = simulateUpto getTime symb candles initialCapital perTradeAmount exitStrategy
                  targetProfitPercent avgLevels (length candles);
            lastPrice = close (candles ! (length candles - 1));
            realizedProfit = foldl (\<lambda>sum t. sum + t_profit t) 0 (trades s);
            openPositions = map (toOpenPosition lastPrice) (internalOpenPositions s);
            unrealizedProfit = foldl (\<lambda>sum p. sum + pnl p) 0 openPositions;
            blockedCapital =
              foldl (\<lambda>sum p. sum + real_of_int (quantity p) * buyPrice p) 0 openPositions;
            closingPositionValue = foldl (\<lambda>sum p. sum + currentValue p) 0 openPositions;
            finalCapital = cash s + closingPositionValue;
            totalProfit = finalCapital - initialCapital;
            winningTrades = length (filter (\<lambda>t. t_profit t > 0) (trades s));
            losingTrades = length (filter (\<lambda>t. t_profit t \<le> 0) (trades s))
        in Some \<lparr>r_symbol = symb, r_startDate = date (candles ! 20),
                 r_endDate = date (candles ! (length candles - 1)),
                 r_initialCapital = initialCapital, r_finalCapital = finalCapital,
                 r_totalTrades = length (trades s),
                 r_winningTrades = winningTrades, r_losingTrades = losingTrades,
                 r_winRate = (if length (trades s) > 0
                              then (real winningTrades / real (length (trades s))) * 100
                              else 0),
                 r_totalProfit = totalProfit,
                 r_totalProfitPercent =
                   map_option (\<lambda>q. q * 100) (js_div totalProfit initialCapital),
                 r_cagr = cagrOf initialCapital finalCapital (durationYearsOf getTime candles),
                 r_realizedProfit = realizedProfit, r_unrealizedProfit = unrealizedProfit,
                 r_blockedCapital = blockedCapital, r_maxDrawdown = maxDrawdown s,
                 r_trades = trades s, r_openPositions = openPositions,
                 r_dailyLog = dailyLog s\<rparr>)"

subsection \<open>The CAGR check script\<close>

definition calculateCAGR :: "real \<Rightarrow> real \<Rightarrow> real \<Rightarrow> real option" where
  \<comment> \<open>The stand-alone \<open>calculateCAGR(initial, final, days)\<close>; its guard is on \<open>initial\<close>,
      that of \<open>runBacktest\<close> on the final capital.\<close>
  "calculateCAGR initial final days =
     (let years = days / 365.25
      in if years \<le> 0 \<or> initial \<le> 0 then Some 0
         else map_option (\<lambda>p. (p - 1) * 100) (math_pow (final / initial) (1 / years)))"

section \<open>Auxiliary definitions\<close>

text \<open>
  Both exit branches of \<open>checkSells\<close> fold one step over the indexed lots; \<open>sellStep\<close>
  names that step for a test \<open>hit\<close> and a selling price \<open>price\<close>.
\<close>

definition sellStep ::
  "(string \<Rightarrow> int) \<Rightarrow> string \<Rightarrow> DailyCandle \<Rightarrow> (Position \<Rightarrow> bool) \<Rightarrow> (Position \<Rightarrow> real)
     \<Rightarrow> nat \<times> Position \<Rightarrow> SimState \<Rightarrow> SimState" where
  "sellStep g sy day hit price = (\<lambda>(j, pos) s'. if hit pos then closePosition g sy day (price pos) j pos s' else s')"

section \<open>Example data\<close>

text \<open>Bars, lots and states on which the statements below are evaluated.\<close>

definition flatBar :: "real \<Rightarrow> real \<Rightarrow> real \<Rightarrow> DailyCandle" where
  "flatBar h l c =
     \<lparr>symbol = ''X'', date = ''d'', opn = c, high = h, low = l, close = c, volume = 0\<rparr>"

definition ex1 :: "DailyCandle list" where
  \<comment> \<open>Twenty flat bars, a bar that touches the window low and breaks the window high, and
      a quiet bar dated \<open>e\<close>.\<close>
  "ex1 = replicate 20 (flatBar 10 10 10) @
           [flatBar 11 10 11, (flatBar 10.5 10 10.5)\<lparr>date := ''e''\<rparr>]"

definition noTime :: "string \<Rightarrow> int" where
  \<comment> \<open>Every date at the epoch.\<close>
  "noTime s = 0"

definition lotA :: Position where
  "lotA = \<lparr>buyDate = ''d1'', buyPrice = 100, quantity = 10, buyNumber = 1, targetPercent = 6\<rparr>"

definition lotB :: Position where
  "lotB = \<lparr>buyDate = ''d2'', buyPrice = 90, quantity = 10, buyNumber = 2, targetPercent = 6\<rparr>"

definition twoLots :: SimState where
  "twoLots = \<lparr>cash = 1000, isTracking = False, currentBuyNumber = 2,
      internalOpenPositions = [lotA, lotB], maxEquity = 3000, maxDrawdown = Some 0,
      trades = [], dailyLog = [], positionsToClose = [], activitiesToday = []\<rparr>"

definition ex2 :: "real \<Rightarrow> DailyCandle list" where
  "ex2 h = replicate 20 (flatBar 102 90 95) @ [flatBar h 96 99]"

definition buy1 :: TradeActivity where
  "buy1 = \<lparr>a_symbol = ''X'', a_type = BUY, a_price = 10, a_quantity = 10, a_amount = 100,
      a_buyNumber = 1, a_profit = None, a_date = ''d'', a_holdingDays = None,
      a_purchaseDate = None\<rparr>"

definition exFlat :: "DailyCandle list" where
  "exFlat = replicate 22 (flatBar 10 9 10)"



definition exGetTime :: "string \<Rightarrow> int" where
  \<comment> \<open>The date \<open>e\<close> lies 365.25 days after every other date.\<close>
  "exGetTime s = (if s = ''e'' then 31557600000 else 0)"

section \<open>Insufficient data\<close>

text \<open>
  C7.  With fewer than 21 bars both \<open>analyzeStock\<close> and \<open>runBacktest\<close> return the absent
  result (\<open>null\<close>, here \<open>None\<close>) and nothing is raised; with at least 21 bars both return
  a result.
\<close>

theorem insufficient_data_is_absence:
  "(length candles < 21 \<longrightarrow>
      analyzeStock symb candles = None \<and>
      runBacktest getTime symb candles initialCapital perTradeAmount exitStrategy
        targetProfitPercent avgLevels = None) \<and>
   (length candles \<ge> 21 \<longrightarrow>
      analyzeStock symb candles \<noteq> None \<and>
      runBacktest getTime symb candles initialCapital perTradeAmount exitStrategy
        targetProfitPercent avgLevels \<noteq> None)"
  by (simp add: analyzeStock_def runBacktest_def Let_def)

theorem insufficient_data_is_absence_witness:
  "length (replicate 10 (flatBar 10 10 10)) < 21 \<and>
   analyzeStock ''X'' (replicate 10 (flatBar 10 10 10)) = None \<and>
   runBacktest (\<lambda>_. 0) ''X'' (replicate 10 (flatBar 10 10 10)) 1000 None LIFO 6 3 = None \<and>
   length ex1 \<ge> 21 \<and>
   analyzeStock ''X'' ex1 \<noteq> None \<and>
   runBacktest (\<lambda>_. 0) ''X'' ex1 1000 None LIFO 6 3 \<noteq> None"
  using insufficient_data_is_absence [of "replicate 10 (flatBar 10 10 10)" "''X''" "\<lambda>_. 0" 1000 None LIFO 6 3]
        insufficient_data_is_absence [of ex1 "''X''" "\<lambda>_. 0" 1000 None LIFO 6 3]
  by (simp add: ex1_def)

section \<open>Windows and the exit step\<close>

lemma math_max_Max: "xs \<noteq> [] \<Longrightarrow> math_max xs = Max (set xs)"
proof (cases xs)
  case (Cons a list)
  then show ?thesis using Max.set_eq_fold[of a list] by simp
qed simp

lemma math_min_Min: "xs \<noteq> [] \<Longrightarrow> math_min xs = Min (set xs)"
proof (cases xs)
  case (Cons a list)
  then show ?thesis using Min.set_eq_fold[of a list] by simp
qed simp

lemma sell_fold:
  "trades (fold (sellStep g sy day hit price) (enumerate n ps) s) =
     trades s @ map (\<lambda>p. closedTrade g sy day (price p) p) (filter hit ps)"
  "activitiesToday (fold (sellStep g sy day hit price) (enumerate n ps) s) =
     activitiesToday s @ map (\<lambda>p. sellActivity g sy day (price p) p) (filter hit ps)"
  "cash (fold (sellStep g sy day hit price) (enumerate n ps) s) =
     cash s + sum_list (map (\<lambda>p. real_of_int (quantity p) * price p) (filter hit ps))"
  "positionsToClose (fold (sellStep g sy day hit price) (enumerate n ps) s) =
     positionsToClose s @ map fst (filter (hit \<circ> snd) (enumerate n ps))"
  "internalOpenPositions (fold (sellStep g sy day hit price) (enumerate n ps) s) = internalOpenPositions s"
  "isTracking (fold (sellStep g sy day hit price) (enumerate n ps) s) = isTracking s"
  "currentBuyNumber (fold (sellStep g sy day hit price) (enumerate n ps) s) = currentBuyNumber s"
  "dailyLog (fold (sellStep g sy day hit price) (enumerate n ps) s) = dailyLog s"
  "maxEquity (fold (sellStep g sy day hit price) (enumerate n ps) s) = maxEquity s"
  "maxDrawdown (fold (sellStep g sy day hit price) (enumerate n ps) s) = maxDrawdown s"
  by (induction ps arbitrary: n s; simp add: sellStep_def closePosition_def)+

lemma keep_unhit:
  "map snd (filter (\<lambda>(idx, _). idx \<notin> set (map fst (filter (hit \<circ> snd) (enumerate n ps))))
              (enumerate n ps)) = filter (\<lambda>p. \<not> hit p) ps"
proof -
  have eq: "\<And>x. x \<in> set (enumerate n ps) \<Longrightarrow>
      (fst x \<notin> set (map fst (filter (hit \<circ> snd) (enumerate n ps)))) = (\<not> hit (snd x))"
    by (auto simp: in_set_enumerate_eq image_iff)
  have "filter (\<lambda>(idx, _). idx \<notin> set (map fst (filter (hit \<circ> snd) (enumerate n ps)))) (enumerate n ps)
      = filter (\<lambda>x. \<not> hit (snd x)) (enumerate n ps)"
    by (rule filter_cong[OF refl]) (use eq in \<open>auto simp: case_prod_beta\<close>)
  moreover have "map snd (filter (\<lambda>x. \<not> hit (snd x)) (enumerate n ps))
      = filter (\<lambda>p. \<not> hit p) ps"
    by (induction ps arbitrary: n) auto
  ultimately show ?thesis
    by simp
qed

lemma checkSells_WA:
  assumes "internalOpenPositions s \<noteq> []"
  shows "checkSells g sy WEIGHTED_AVERAGE day s =
     (if high day \<ge> aggregateTargetPrice (internalOpenPositions s)
      then fold (sellStep g sy day (\<lambda>_. True) (\<lambda>_. aggregateTargetPrice (internalOpenPositions s)))
             (enumerate 0 (internalOpenPositions s)) s
      else s)"
proof -
  have "(\<lambda>(idx, pos). closePosition g sy day (aggregateTargetPrice (internalOpenPositions s)) idx pos)
      = sellStep g sy day (\<lambda>_. True) (\<lambda>_. aggregateTargetPrice (internalOpenPositions s))"
    by (auto simp: sellStep_def fun_eq_iff)
  with assms show ?thesis by (simp add: checkSells_def Let_def)
qed

lemma checkSells_individual:
  assumes "exitStrategy = LIFO \<or> internalOpenPositions s = []"
  shows "checkSells g sy exitStrategy day s =
     fold (sellStep g sy day (\<lambda>pos. high day \<ge> targetPrice pos) targetPrice)
       (enumerate 0 (internalOpenPositions s)) s"
  using assms by (auto simp: checkSells_def Let_def sellStep_def)

lemma foldl_add_sum: "foldl (\<lambda>sum p. sum + f p) a ps = a + sum_list (map f ps)"
  for a :: "'a::monoid_add"
  by (induction ps arbitrary: a) (simp_all add: add.assoc)

lemma weightedAvgPrice_sum:
  "weightedAvgPrice ps =
     (if (\<Sum>p\<leftarrow>ps. quantity p) > 0
      then (\<Sum>p\<leftarrow>ps. real_of_int (quantity p) * buyPrice p) / real_of_int (\<Sum>p\<leftarrow>ps. quantity p)
      else 0)"
  by (simp add: weightedAvgPrice_def foldl_add_sum Let_def)

lemma sum_quantity_pos:
  assumes "ps \<noteq> []" and "\<forall>p\<in>set ps. quantity p > 0"
  shows "(\<Sum>p\<leftarrow>ps. quantity p) > 0"
proof (cases ps)
  case Nil
  with assms show ?thesis by simp
next
  case (Cons a list)
  have "(\<Sum>p\<leftarrow>list. quantity p) \<ge> 0"
    using assms(2) Cons by (intro sum_list_nonneg) auto
  moreover have "quantity a > 0" using assms(2) Cons by simp
  ultimately show ?thesis using Cons by simp
qed

lemma removeClosed_simps:
  "internalOpenPositions (removeClosed s) =
     map snd (filter (\<lambda>(idx, _). idx \<notin> set (positionsToClose s))
                (enumerate 0 (internalOpenPositions s)))"
  "trades (removeClosed s) = trades s"
  "activitiesToday (removeClosed s) = activitiesToday s"
  "cash (removeClosed s) = cash s"
  "dailyLog (removeClosed s) = dailyLog s"
  "maxEquity (removeClosed s) = maxEquity s"
  "maxDrawdown (removeClosed s) = maxDrawdown s"
  by (simp_all add: removeClosed_def Let_def)

lemma exitPhase_individual:
  assumes "exitStrategy = LIFO \<or> internalOpenPositions s = []"
  shows "internalOpenPositions (exitPhase g sy exitStrategy day s) =
           filter (\<lambda>pos. \<not> high day \<ge> targetPrice pos) (internalOpenPositions s)"
    and "trades (exitPhase g sy exitStrategy day s) =
           trades s @ map (\<lambda>pos. closedTrade g sy day (targetPrice pos) pos)
                        (filter (\<lambda>pos. high day \<ge> targetPrice pos) (internalOpenPositions s))"
    and "activitiesToday (exitPhase g sy exitStrategy day s) =
           map (\<lambda>pos. sellActivity g sy day (targetPrice pos) pos)
             (filter (\<lambda>pos. high day \<ge> targetPrice pos) (internalOpenPositions s))"
    and "cash (exitPhase g sy exitStrategy day s) =
           cash s + (\<Sum>pos\<leftarrow>filter (\<lambda>pos. high day \<ge> targetPrice pos) (internalOpenPositions s).
                       real_of_int (quantity pos) * targetPrice pos)"
    and "dailyLog (exitPhase g sy exitStrategy day s) = dailyLog s"
    and "maxEquity (exitPhase g sy exitStrategy day s) = maxEquity s"
    and "maxDrawdown (exitPhase g sy exitStrategy day s) = maxDrawdown s"
proof -
  let ?s0 = "s\<lparr>positionsToClose := [], activitiesToday := []\<rparr>"
  have cs: "checkSells g sy exitStrategy day ?s0 =
      fold (sellStep g sy day (\<lambda>pos. high day \<ge> targetPrice pos) targetPrice)
        (enumerate 0 (internalOpenPositions s)) ?s0"
    using checkSells_individual[of exitStrategy ?s0 g sy day] assms by simp
  have pc: "positionsToClose (fold (sellStep g sy day (\<lambda>pos. high day \<ge> targetPrice pos) targetPrice)
        (enumerate 0 (internalOpenPositions s)) ?s0) =
      map fst (filter ((\<lambda>pos. high day \<ge> targetPrice pos) \<circ> snd) (enumerate 0 (internalOpenPositions s)))"
    by (simp add: sell_fold)
  have ip: "internalOpenPositions (fold (sellStep g sy day (\<lambda>pos. high day \<ge> targetPrice pos) targetPrice)
        (enumerate 0 (internalOpenPositions s)) ?s0) = internalOpenPositions s"
    by (simp add: sell_fold)
  show "internalOpenPositions (exitPhase g sy exitStrategy day s) =
           filter (\<lambda>pos. \<not> high day \<ge> targetPrice pos) (internalOpenPositions s)"
    by (simp only: exitPhase_def cs removeClosed_simps pc ip keep_unhit)
  show "trades (exitPhase g sy exitStrategy day s) =
           trades s @ map (\<lambda>pos. closedTrade g sy day (targetPrice pos) pos)
                        (filter (\<lambda>pos. high day \<ge> targetPrice pos) (internalOpenPositions s))"
    unfolding exitPhase_def cs by (simp add: removeClosed_simps sell_fold)
  show "activitiesToday (exitPhase g sy exitStrategy day s) =
           map (\<lambda>pos. sellActivity g sy day (targetPrice pos) pos)
             (filter (\<lambda>pos. high day \<ge> targetPrice pos) (internalOpenPositions s))"
    unfolding exitPhase_def cs by (simp add: removeClosed_simps sell_fold)
  show "cash (exitPhase g sy exitStrategy day s) =
           cash s + (\<Sum>pos\<leftarrow>filter (\<lambda>pos. high day \<ge> targetPrice pos) (internalOpenPositions s).
                       real_of_int (quantity pos) * targetPrice pos)"
    unfolding exitPhase_def cs by (simp add: removeClosed_simps sell_fold)
  show "dailyLog (exitPhase g sy exitStrategy day s) = dailyLog s"
    unfolding exitPhase_def cs by (simp add: removeClosed_simps sell_fold)
  show "maxEquity (exitPhase g sy exitStrategy day s) = maxEquity s"
    unfolding exitPhase_def cs by (simp add: removeClosed_simps sell_fold)
  show "maxDrawdown (exitPhase g sy exitStrategy day s) = maxDrawdown s"
    unfolding exitPhase_def cs by (simp add: removeClosed_simps sell_fold)
qed

lemma exitPhase_WA_hit:
  assumes "internalOpenPositions s \<noteq> []"
      and "high day \<ge> aggregateTargetPrice (internalOpenPositions s)"
  shows "internalOpenPositions (exitPhase g sy WEIGHTED_AVERAGE day s) = []"
    and "trades (exitPhase g sy WEIGHTED_AVERAGE day s) =
           trades s @ map (closedTrade g sy day (aggregateTargetPrice (internalOpenPositions s)))
                        (internalOpenPositions s)"
    and "activitiesToday (exitPhase g sy WEIGHTED_AVERAGE day s) =
           map (sellActivity g sy day (aggregateTargetPrice (internalOpenPositions s)))
             (internalOpenPositions s)"
    and "cash (exitPhase g sy WEIGHTED_AVERAGE day s) =
           cash s + (\<Sum>pos\<leftarrow>internalOpenPositions s.
                       real_of_int (quantity pos) * aggregateTargetPrice (internalOpenPositions s))"
    and "dailyLog (exitPhase g sy WEIGHTED_AVERAGE day s) = dailyLog s"
proof -
  let ?s0 = "s\<lparr>positionsToClose := [], activitiesToday := []\<rparr>"
  let ?px = "aggregateTargetPrice (internalOpenPositions s)"
  have cs: "checkSells g sy WEIGHTED_AVERAGE day ?s0 =
      fold (sellStep g sy day (\<lambda>_. True) (\<lambda>_. ?px)) (enumerate 0 (internalOpenPositions s)) ?s0"
    using checkSells_WA[of ?s0 g sy day] assms by simp
  have pc: "positionsToClose (fold (sellStep g sy day (\<lambda>_. True) (\<lambda>_. ?px))
        (enumerate 0 (internalOpenPositions s)) ?s0) =
      map fst (filter ((\<lambda>_. True) \<circ> snd) (enumerate 0 (internalOpenPositions s)))"
    by (simp add: sell_fold)
  have ip: "internalOpenPositions (fold (sellStep g sy day (\<lambda>_. True) (\<lambda>_. ?px))
        (enumerate 0 (internalOpenPositions s)) ?s0) = internalOpenPositions s"
    by (simp add: sell_fold)
  have "internalOpenPositions (exitPhase g sy WEIGHTED_AVERAGE day s) =
      filter (\<lambda>p. \<not> True) (internalOpenPositions s)"
    by (simp only: exitPhase_def cs removeClosed_simps pc ip keep_unhit)
  then show "internalOpenPositions (exitPhase g sy WEIGHTED_AVERAGE day s) = []"
    by simp
  show "trades (exitPhase g sy WEIGHTED_AVERAGE day s) =
           trades s @ map (closedTrade g sy day ?px) (internalOpenPositions s)"
    unfolding exitPhase_def cs by (simp add: removeClosed_simps sell_fold)
  show "activitiesToday (exitPhase g sy WEIGHTED_AVERAGE day s) =
           map (sellActivity g sy day ?px) (internalOpenPositions s)"
    unfolding exitPhase_def cs by (simp add: removeClosed_simps sell_fold)
  show "cash (exitPhase g sy WEIGHTED_AVERAGE day s) =
           cash s + (\<Sum>pos\<leftarrow>internalOpenPositions s. real_of_int (quantity pos) * ?px)"
    unfolding exitPhase_def cs by (simp add: removeClosed_simps sell_fold)
  show "dailyLog (exitPhase g sy WEIGHTED_AVERAGE day s) = dailyLog s"
    unfolding exitPhase_def cs by (simp add: removeClosed_simps sell_fold)
qed

lemma exitPhase_WA_miss:
  assumes "internalOpenPositions s \<noteq> []"
      and "\<not> high day \<ge> aggregateTargetPrice (internalOpenPositions s)"
  shows "internalOpenPositions (exitPhase g sy WEIGHTED_AVERAGE day s) = internalOpenPositions s"
    and "trades (exitPhase g sy WEIGHTED_AVERAGE day s) = trades s"
    and "activitiesToday (exitPhase g sy WEIGHTED_AVERAGE day s) = []"
    and "cash (exitPhase g sy WEIGHTED_AVERAGE day s) = cash s"
    and "dailyLog (exitPhase g sy WEIGHTED_AVERAGE day s) = dailyLog s"
proof -
  let ?s0 = "s\<lparr>positionsToClose := [], activitiesToday := []\<rparr>"
  have cs: "checkSells g sy WEIGHTED_AVERAGE day ?s0 = ?s0"
    using checkSells_WA[of ?s0 g sy day] assms by simp
  have keep: "map snd (filter (\<lambda>(idx, _). idx \<notin> set []) (enumerate 0 (internalOpenPositions s)))
                = internalOpenPositions s"
    by (simp add: case_prod_beta)
  show "internalOpenPositions (exitPhase g sy WEIGHTED_AVERAGE day s) = internalOpenPositions s"
    unfolding exitPhase_def cs using keep by (simp add: removeClosed_simps)
  show "trades (exitPhase g sy WEIGHTED_AVERAGE day s) = trades s"
    unfolding exitPhase_def cs by (simp add: removeClosed_simps)
  show "activitiesToday (exitPhase g sy WEIGHTED_AVERAGE day s) = []"
    unfolding exitPhase_def cs by (simp add: removeClosed_simps)
  show "cash (exitPhase g sy WEIGHTED_AVERAGE day s) = cash s"
    unfolding exitPhase_def cs by (simp add: removeClosed_simps)
  show "dailyLog (exitPhase g sy WEIGHTED_AVERAGE day s) = dailyLog s"
    unfolding exitPhase_def cs by (simp add: removeClosed_simps)
qed

section \<open>Entry step and end-of-day accounting\<close>

lemma endOfDay_simps:
  "cash (endOfDay day s) = cash s"
  "internalOpenPositions (endOfDay day s) = internalOpenPositions s"
  "trades (endOfDay day s) = trades s"
  "currentBuyNumber (endOfDay day s) = currentBuyNumber s"
  "isTracking (endOfDay day s) = isTracking s"
  "activitiesToday (endOfDay day s) = activitiesToday s"
  by (simp_all add: endOfDay_def Let_def split: option.splits)

lemma endOfDay_log:
  "dailyLog (endOfDay day s) = dailyLog s @
     [\<lparr>d_date = date day, d_cash = cash s,
       d_invested = (\<Sum>pos\<leftarrow>internalOpenPositions s. real_of_int (quantity pos) * close day),
       d_equity = cash s + (\<Sum>pos\<leftarrow>internalOpenPositions s. real_of_int (quantity pos) * close day),
       d_profit = 0, d_activities = activitiesToday s\<rparr>]"
proof -
  have f: "fold (\<lambda>pos inv. inv + real_of_int (quantity pos) * close day) ps a =
      a + (\<Sum>pos\<leftarrow>ps. real_of_int (quantity pos) * close day)" for ps and a :: real
    by (induction ps arbitrary: a) simp_all
  show ?thesis
    by (simp add: endOfDay_def Let_def f split: option.splits)
qed

lemma simulateDay_unfold:
  "simulateDay g sy candles ta es tpp lv i s =
     endOfDay (candles ! i)
       (checkEntry sy ta tpp lv (candles ! i) (twentyDayHigh candles i) (twentyDayLow candles i)
          (exitPhase g sy es (candles ! i) s))"
  by (simp add: simulateDay_def Let_def)

lemma exitPhase_activities_SELL:
  assumes "a \<in> set (activitiesToday (exitPhase g sy es day s))"
  shows "a_type a = SELL"
proof (cases "es = LIFO \<or> internalOpenPositions s = []")
  case True
  from assms show ?thesis
    unfolding exitPhase_individual(3)[OF True] by (auto simp: sellActivity_def)
next
  case False
  then have es: "es = WEIGHTED_AVERAGE" and ne: "internalOpenPositions s \<noteq> []"
    by (cases es; simp)+
  show ?thesis
  proof (cases "high day \<ge> aggregateTargetPrice (internalOpenPositions s)")
    case True
    from assms show ?thesis
      unfolding es exitPhase_WA_hit(3)[OF ne True] by (auto simp: sellActivity_def)
  next
    case False
    from assms show ?thesis
      unfolding es exitPhase_WA_miss(3)[OF ne False] by simp
  qed
qed

lemma checkEntry_buy:
  assumes "a \<in> set (activitiesToday (checkEntry sy ta tpp lv day tHigh tLow s))"
      and "a_type a = BUY"
      and "\<forall>b\<in>set (activitiesToday s). a_type b \<noteq> BUY"
  shows "(isTracking s \<or> low day \<le> tLow) \<and> high day > tHigh \<and>
         real (currentBuyNumber s) < lv \<and> \<lfloor>ta / tHigh\<rfloor> > 0 \<and>
         cash s \<ge> real_of_int \<lfloor>ta / tHigh\<rfloor> * tHigh \<and>
         currentBuyNumber (checkEntry sy ta tpp lv day tHigh tLow s) = Suc (currentBuyNumber s) \<and>
         internalOpenPositions (checkEntry sy ta tpp lv day tHigh tLow s) =
           internalOpenPositions s @
             [\<lparr>buyDate = date day, buyPrice = tHigh, quantity = \<lfloor>ta / tHigh\<rfloor>,
               buyNumber = Suc (currentBuyNumber s), targetPercent = tpp\<rparr>] \<and>
         cash (checkEntry sy ta tpp lv day tHigh tLow s) =
           cash s - real_of_int \<lfloor>ta / tHigh\<rfloor> * tHigh \<and>
         a_price a = tHigh \<and> a_quantity a = \<lfloor>ta / tHigh\<rfloor> \<and>
         a_buyNumber a = Suc (currentBuyNumber s) \<and>
         \<not> isTracking (checkEntry sy ta tpp lv day tHigh tLow s)"
  using assms
  by (auto simp: checkEntry_def Let_def split: if_splits)

lemma checkEntry_skip:
  assumes "isTracking s \<or> low day \<le> tLow" and "high day > tHigh"
      and "real (currentBuyNumber s) < lv"
      and "\<lfloor>ta / tHigh\<rfloor> > 0" and "cash s < real_of_int \<lfloor>ta / tHigh\<rfloor> * tHigh"
  shows "activitiesToday (checkEntry sy ta tpp lv day tHigh tLow s) =
           activitiesToday s @
             [\<lparr>a_symbol = sy, a_type = SKIPPED, a_price = tHigh, a_quantity = 0, a_amount = 0,
               a_buyNumber = Suc (currentBuyNumber s), a_profit = None, a_date = date day,
               a_holdingDays = None, a_purchaseDate = None\<rparr>]"
    and "internalOpenPositions (checkEntry sy ta tpp lv day tHigh tLow s) = internalOpenPositions s"
    and "cash (checkEntry sy ta tpp lv day tHigh tLow s) = cash s"
    and "trades (checkEntry sy ta tpp lv day tHigh tLow s) = trades s"
  using assms by (auto simp: checkEntry_def Let_def)

lemma checkEntry_zero:
  assumes "\<lfloor>ta / tHigh\<rfloor> = 0"
  shows "activitiesToday (checkEntry sy ta tpp lv day tHigh tLow s) = activitiesToday s"
    and "internalOpenPositions (checkEntry sy ta tpp lv day tHigh tLow s) = internalOpenPositions s"
    and "cash (checkEntry sy ta tpp lv day tHigh tLow s) = cash s"
    and "trades (checkEntry sy ta tpp lv day tHigh tLow s) = trades s"
proof -
  have n: "\<not> 1 \<le> ta / tHigh" using assms by linarith
  show "activitiesToday (checkEntry sy ta tpp lv day tHigh tLow s) = activitiesToday s"
    and "internalOpenPositions (checkEntry sy ta tpp lv day tHigh tLow s) = internalOpenPositions s"
    and "cash (checkEntry sy ta tpp lv day tHigh tLow s) = cash s"
    and "trades (checkEntry sy ta tpp lv day tHigh tLow s) = trades s"
    using n by (auto simp: checkEntry_def Let_def)
qed

lemma checkEntry_skip_state:
  assumes "isTracking s \<or> low day \<le> tLow" and "high day > tHigh"
      and "real (currentBuyNumber s) < lv"
      and "\<lfloor>ta / tHigh\<rfloor> > 0" and "cash s < real_of_int \<lfloor>ta / tHigh\<rfloor> * tHigh"
  shows "checkEntry sy ta tpp lv day tHigh tLow s =
           s\<lparr>isTracking := False, currentBuyNumber := Suc (currentBuyNumber s),
             activitiesToday := activitiesToday s @
               [\<lparr>a_symbol = sy, a_type = SKIPPED, a_price = tHigh, a_quantity = 0, a_amount = 0,
                 a_buyNumber = Suc (currentBuyNumber s), a_profit = None, a_date = date day,
                 a_holdingDays = None, a_purchaseDate = None\<rparr>]\<rparr>"
  using assms by (auto simp: checkEntry_def Let_def)

lemma checkEntry_zero_state:
  assumes "isTracking s \<or> low day \<le> tLow" and "high day > tHigh"
      and "real (currentBuyNumber s) < lv"
      and "\<lfloor>ta / tHigh\<rfloor> = 0"
  shows "checkEntry sy ta tpp lv day tHigh tLow s =
           s\<lparr>isTracking := False, currentBuyNumber := Suc (currentBuyNumber s)\<rparr>"
proof -
  have n: "\<not> 1 \<le> ta / tHigh" using assms(4) by linarith
  show ?thesis
    using assms(1,2,3) n by (auto simp: checkEntry_def Let_def)
qed

lemma checkEntry_trades: "trades (checkEntry sy ta tpp lv day tHigh tLow s) = trades s"
  by (auto simp: checkEntry_def Let_def)

lemma slice_nth: "b \<le> length xs \<Longrightarrow> slice xs a b = map (nth xs) [a..<b]"
  by (rule nth_equalityI) (auto simp: slice_def)

lemma twentyDayHigh_Max:
  assumes "20 \<le> i" "i \<le> length candles"
  shows "twentyDayHigh candles i = Max ((\<lambda>k. high (candles ! k)) ` {i - 20..<i})"
proof -
  have "map high (prev20 candles i) = map (\<lambda>k. high (candles ! k)) [i - 20..<i]"
    using assms by (simp add: prev20_def slice_nth)
  moreover have "[i - 20..<i] \<noteq> []" using assms by simp
  ultimately show ?thesis
    by (simp add: twentyDayHigh_def math_max_Max image_image del: upt_eq_Nil_conv)
qed

lemma twentyDayLow_Min:
  assumes "20 \<le> i" "i \<le> length candles"
  shows "twentyDayLow candles i = Min ((\<lambda>k. low (candles ! k)) ` {i - 20..<i})"
proof -
  have "map low (prev20 candles i) = map (\<lambda>k. low (candles ! k)) [i - 20..<i]"
    using assms by (simp add: prev20_def slice_nth)
  moreover have "[i - 20..<i] \<noteq> []" using assms by simp
  ultimately show ?thesis
    by (simp add: twentyDayLow_def math_min_Min image_image del: upt_eq_Nil_conv)
qed

section \<open>Evaluating the example run\<close>

lemma w20: "twentyDayHigh ex1 20 = 10" "twentyDayLow ex1 20 = 10"
  by (simp_all add: twentyDayHigh_def twentyDayLow_def prev20_def slice_def ex1_def
      math_max_Max math_min_Min flatBar_def)

lemma w21: "twentyDayHigh ex1 21 = 11" "twentyDayLow ex1 21 = 10"
  by (simp_all add: twentyDayHigh_def twentyDayLow_def prev20_def slice_def ex1_def
      math_max_Max math_min_Min flatBar_def)

lemma nth_ex1: "ex1 ! 20 = flatBar 11 10 11" "ex1 ! 21 = (flatBar 10.5 10 10.5)\<lparr>date := ''e''\<rparr>"
  by (simp_all add: ex1_def nth_append)

lemma exit_empty:
  "internalOpenPositions s = [] \<Longrightarrow> currentBuyNumber s = 0 \<Longrightarrow>
   exitPhase g sy es day s = s\<lparr>positionsToClose := [], activitiesToday := []\<rparr>"
  by (simp add: exitPhase_def checkSells_def removeClosed_def Let_def)

lemma day20:
  "simulateDay g ''X'' ex1 100 LIFO 6 3 20 (simInit 1000) =
     \<lparr>cash = 900, isTracking = False, currentBuyNumber = 1,
      internalOpenPositions = [\<lparr>buyDate = ''d'', buyPrice = 10, quantity = 10, buyNumber = 1, targetPercent = 6\<rparr>],
      maxEquity = 1010, maxDrawdown = Some 0,
      trades = [], dailyLog = [\<lparr>d_date = ''d'', d_cash = 900, d_invested = 110, d_equity = 1010, d_profit = 0,
         d_activities = [\<lparr>a_symbol = ''X'', a_type = BUY, a_price = 10,
                 a_quantity = 10, a_amount = 100, a_buyNumber = 1,
                 a_profit = None, a_date = ''d'', a_holdingDays = None,
                 a_purchaseDate = None\<rparr>]\<rparr>], positionsToClose = [],
      activitiesToday = [\<lparr>a_symbol = ''X'', a_type = BUY, a_price = 10,
                 a_quantity = 10, a_amount = 100, a_buyNumber = 1,
                 a_profit = None, a_date = ''d'', a_holdingDays = None,
                 a_purchaseDate = None\<rparr>]\<rparr>"
  by (simp add: simulateDay_unfold w20 nth_ex1 exit_empty simInit_def checkEntry_def endOfDay_def flatBar_def Let_def)

section \<open>Exit strategies\<close>

lemma checkEntry_activities_prefix:
  "take (length (activitiesToday s)) (activitiesToday (checkEntry sy ta tpp lv day tHigh tLow s))
     = activitiesToday s"
  by (auto simp: checkEntry_def Let_def)

lemma simulateDay_trades:
  "trades (simulateDay g sy candles ta es tpp lv i s) = trades (exitPhase g sy es (candles ! i) s)"
  by (simp add: simulateDay_unfold endOfDay_simps checkEntry_trades)

lemma simulateDay_last_log:
  "d_activities (last (dailyLog (simulateDay g sy candles ta es tpp lv i s))) =
     activitiesToday (checkEntry sy ta tpp lv (candles ! i) (twentyDayHigh candles i)
        (twentyDayLow candles i) (exitPhase g sy es (candles ! i) s))"
  "d_cash (last (dailyLog (simulateDay g sy candles ta es tpp lv i s))) =
     cash (checkEntry sy ta tpp lv (candles ! i) (twentyDayHigh candles i)
        (twentyDayLow candles i) (exitPhase g sy es (candles ! i) s))"
  by (simp_all add: simulateDay_unfold endOfDay_log)

lemma simulateDay_fields:
  "cash (simulateDay g sy candles ta es tpp lv i s) =
     cash (checkEntry sy ta tpp lv (candles ! i) (twentyDayHigh candles i)
        (twentyDayLow candles i) (exitPhase g sy es (candles ! i) s))"
  "internalOpenPositions (simulateDay g sy candles ta es tpp lv i s) =
     internalOpenPositions (checkEntry sy ta tpp lv (candles ! i) (twentyDayHigh candles i)
        (twentyDayLow candles i) (exitPhase g sy es (candles ! i) s))"
  "currentBuyNumber (simulateDay g sy candles ta es tpp lv i s) =
     currentBuyNumber (checkEntry sy ta tpp lv (candles ! i) (twentyDayHigh candles i)
        (twentyDayLow candles i) (exitPhase g sy es (candles ! i) s))"
  by (simp_all add: simulateDay_unfold endOfDay_simps)

text \<open>
  C1.  WEIGHTED_AVERAGE mode, a simulated day \<open>i\<close> that starts with at least one open lot
  and whose high reaches the aggregate target price \<open>px\<close>: the exit step leaves no open
  lot; it appends one closed trade and one SELL activity per lot, in the order of the
  lots, each with the lot's own entry data and the shared exit price \<open>px\<close>; and it adds
  \<open>quantity * px\<close> to the cash for each lot.  When the lots have positive quantities (as
  every lot the simulator creates has), \<open>px\<close> is the quantity-weighted average entry
  price times \<open>1 + baseTargetPercent / 100\<close>, with \<open>baseTargetPercent\<close> read from the
  first lot.
\<close>

theorem weighted_average_exit_closes_all_lots:
  assumes "20 \<le> i" and "i < length candles"
      and "internalOpenPositions s \<noteq> []"
      and "high (candles ! i) \<ge> aggregateTargetPrice (internalOpenPositions s)"
  shows "let day = candles ! i; ps = internalOpenPositions s; px = aggregateTargetPrice ps;
             s2 = exitPhase getTime symb WEIGHTED_AVERAGE day s;
             s' = simulateDay getTime symb candles tradeAmount WEIGHTED_AVERAGE
                    targetProfitPercent avgLevels i s
         in internalOpenPositions s2 = [] \<and>
            cash s2 = cash s + (\<Sum>pos\<leftarrow>ps. real_of_int (quantity pos) * px) \<and>
            trades s' = trades s @ map (closedTrade getTime symb day px) ps \<and>
            take (length ps) (d_activities (last (dailyLog s'))) =
              map (sellActivity getTime symb day px) ps \<and>
            (\<forall>pos\<in>set ps.
               t_sellPrice (closedTrade getTime symb day px pos) = px \<and>
               t_sellDate (closedTrade getTime symb day px pos) = date day \<and>
               t_buyDate (closedTrade getTime symb day px pos) = buyDate pos \<and>
               t_buyPrice (closedTrade getTime symb day px pos) = buyPrice pos \<and>
               t_buyNumber (closedTrade getTime symb day px pos) = buyNumber pos \<and>
               t_profit (closedTrade getTime symb day px pos) =
                 (px - buyPrice pos) * real_of_int (quantity pos) \<and>
               a_type (sellActivity getTime symb day px pos) = SELL \<and>
               a_price (sellActivity getTime symb day px pos) = px \<and>
               a_quantity (sellActivity getTime symb day px pos) = quantity pos \<and>
               a_amount (sellActivity getTime symb day px pos) = real_of_int (quantity pos) * px \<and>
               a_date (sellActivity getTime symb day px pos) = date day \<and>
               a_purchaseDate (sellActivity getTime symb day px pos) = Some (buyDate pos)) \<and>
            ((\<forall>pos\<in>set ps. quantity pos > 0) \<longrightarrow>
               px = (\<Sum>pos\<leftarrow>ps. real_of_int (quantity pos) * buyPrice pos)
                      / real_of_int (\<Sum>pos\<leftarrow>ps. quantity pos)
                    * (1 + targetPercent (hd ps) / 100))"
proof -
  let ?day = "candles ! i"
  let ?ps = "internalOpenPositions s"
  let ?px = "aggregateTargetPrice ?ps"
  let ?s2 = "exitPhase getTime symb WEIGHTED_AVERAGE ?day s"
  let ?s' = "simulateDay getTime symb candles tradeAmount WEIGHTED_AVERAGE targetProfitPercent avgLevels i s"
  note hit = exitPhase_WA_hit[OF assms(3,4), of getTime symb]
  have acts: "take (length ?ps) (d_activities (last (dailyLog ?s'))) =
      map (sellActivity getTime symb ?day ?px) ?ps"
    using checkEntry_activities_prefix[of ?s2 symb tradeAmount targetProfitPercent avgLevels ?day
            "twentyDayHigh candles i" "twentyDayLow candles i"]
    by (simp add: simulateDay_last_log hit(3))
  have tr: "trades ?s' = trades s @ map (closedTrade getTime symb ?day ?px) ?ps"
    by (simp add: simulateDay_trades hit(2))
  have px: "(\<forall>pos\<in>set ?ps. quantity pos > 0) \<longrightarrow>
      ?px = (\<Sum>pos\<leftarrow>?ps. real_of_int (quantity pos) * buyPrice pos)
              / real_of_int (\<Sum>pos\<leftarrow>?ps. quantity pos) * (1 + targetPercent (hd ?ps) / 100)"
    using sum_quantity_pos[OF assms(3)] assms(3)
    by (simp add: aggregateTargetPrice_def weightedAvgPrice_sum hd_conv_nth Let_def)
  show ?thesis
    unfolding Let_def
    using hit(1) hit(4) tr acts px
    by (simp add: closedTrade_def sellActivity_def)
qed

lemma nth_ex2: "ex2 h ! 20 = flatBar h 96 99" "length (ex2 h) = 21"
  by (simp_all add: ex2_def nth_append)

lemma agg_twoLots: "aggregateTargetPrice [lotA, lotB] = 1007 / 10"
  by (simp add: aggregateTargetPrice_def weightedAvgPrice_def lotA_def lotB_def Let_def)

theorem weighted_average_exit_closes_all_lots_witness:
  "(20::nat) \<le> 20 \<and> 20 < length (ex2 101) \<and> internalOpenPositions twoLots \<noteq> [] \<and>
   high (ex2 101 ! 20) \<ge> aggregateTargetPrice (internalOpenPositions twoLots) \<and>
   internalOpenPositions (exitPhase (\<lambda>_. 0) ''X'' WEIGHTED_AVERAGE (ex2 101 ! 20) twoLots) = [] \<and>
   cash (exitPhase (\<lambda>_. 0) ''X'' WEIGHTED_AVERAGE (ex2 101 ! 20) twoLots) = 3014 \<and>
   map t_sellPrice (trades (simulateDay (\<lambda>_. 0) ''X'' (ex2 101) 100 WEIGHTED_AVERAGE 6 3 20 twoLots))
     = [1007 / 10, 1007 / 10] \<and>
   map t_buyPrice (trades (simulateDay (\<lambda>_. 0) ''X'' (ex2 101) 100 WEIGHTED_AVERAGE 6 3 20 twoLots))
     = [100, 90]"
proof -
  have h1: "(20::nat) \<le> 20" by simp
  have h2: "20 < length (ex2 101)" by (simp add: nth_ex2)
  have h3: "internalOpenPositions twoLots \<noteq> []" by (simp add: twoLots_def)
  have h4: "high (ex2 101 ! 20) \<ge> aggregateTargetPrice (internalOpenPositions twoLots)"
    by (simp add: twoLots_def agg_twoLots nth_ex2 flatBar_def)
  have ps: "internalOpenPositions twoLots = [lotA, lotB]" "cash twoLots = 1000" "trades twoLots = []"
    by (simp_all add: twoLots_def)
  from weighted_average_exit_closes_all_lots [OF h1 h2 h3 h4, of "\<lambda>_. 0" "''X''" 100 6 3]
  show ?thesis
    using h2 h3 h4
    by (simp add: Let_def ps agg_twoLots closedTrade_def lotA_def lotB_def)
qed

text \<open>
  C2.  LIFO mode, any simulated day \<open>i\<close>: the exit step closes exactly the lots whose own
  target price \<open>buyPrice * (1 + targetPercent / 100)\<close> is at most the day's high, each at
  its own target price, in entry order; the other lots stay in the open list unchanged and
  in the same order.  The witness has a younger lot with the lower target closing while
  the older lot stays open.
\<close>

theorem lifo_exit_closes_each_lot_at_its_own_target:
  assumes "20 \<le> i" and "i < length candles"
  shows "let day = candles ! i; ps = internalOpenPositions s;
             reached = filter (\<lambda>pos. targetPrice pos \<le> high day) ps;
             s2 = exitPhase getTime symb LIFO day s;
             s' = simulateDay getTime symb candles tradeAmount LIFO targetProfitPercent avgLevels i s
         in internalOpenPositions s2 =
              filter (\<lambda>pos. \<not> targetPrice pos \<le> high day) ps \<and>
            cash s2 = cash s + (\<Sum>pos\<leftarrow>reached. real_of_int (quantity pos) * targetPrice pos) \<and>
            trades s' = trades s @ map (\<lambda>pos. closedTrade getTime symb day (targetPrice pos) pos) reached \<and>
            take (length reached) (d_activities (last (dailyLog s'))) =
              map (\<lambda>pos. sellActivity getTime symb day (targetPrice pos) pos) reached \<and>
            (\<forall>pos. targetPrice pos = buyPrice pos * (1 + targetPercent pos / 100)) \<and>
            (\<forall>pos\<in>set reached.
               t_sellPrice (closedTrade getTime symb day (targetPrice pos) pos) = targetPrice pos \<and>
               t_sellDate (closedTrade getTime symb day (targetPrice pos) pos) = date day \<and>
               t_buyDate (closedTrade getTime symb day (targetPrice pos) pos) = buyDate pos \<and>
               t_buyPrice (closedTrade getTime symb day (targetPrice pos) pos) = buyPrice pos \<and>
               t_buyNumber (closedTrade getTime symb day (targetPrice pos) pos) = buyNumber pos \<and>
               a_type (sellActivity getTime symb day (targetPrice pos) pos) = SELL \<and>
               a_price (sellActivity getTime symb day (targetPrice pos) pos) = targetPrice pos \<and>
               a_quantity (sellActivity getTime symb day (targetPrice pos) pos) = quantity pos)"
proof -
  let ?day = "candles ! i"
  let ?ps = "internalOpenPositions s"
  let ?reached = "filter (\<lambda>pos. targetPrice pos \<le> high ?day) ?ps"
  let ?s2 = "exitPhase getTime symb LIFO ?day s"
  let ?s' = "simulateDay getTime symb candles tradeAmount LIFO targetProfitPercent avgLevels i s"
  have l: "LIFO = LIFO \<or> internalOpenPositions s = []" by simp
  note ind = exitPhase_individual[OF l, of getTime symb ?day]
  have acts: "take (length ?reached) (d_activities (last (dailyLog ?s'))) =
      map (\<lambda>pos. sellActivity getTime symb ?day (targetPrice pos) pos) ?reached"
    using checkEntry_activities_prefix[of ?s2 symb tradeAmount targetProfitPercent avgLevels ?day
            "twentyDayHigh candles i" "twentyDayLow candles i"]
    by (simp add: simulateDay_last_log ind(3))
  have tr: "trades ?s' = trades s @ map (\<lambda>pos. closedTrade getTime symb ?day (targetPrice pos) pos) ?reached"
    by (simp add: simulateDay_trades ind(2))
  have fields: "\<forall>pos\<in>set ?reached.
               t_sellPrice (closedTrade getTime symb ?day (targetPrice pos) pos) = targetPrice pos \<and>
               t_sellDate (closedTrade getTime symb ?day (targetPrice pos) pos) = date ?day \<and>
               t_buyDate (closedTrade getTime symb ?day (targetPrice pos) pos) = buyDate pos \<and>
               t_buyPrice (closedTrade getTime symb ?day (targetPrice pos) pos) = buyPrice pos \<and>
               t_buyNumber (closedTrade getTime symb ?day (targetPrice pos) pos) = buyNumber pos \<and>
               a_type (sellActivity getTime symb ?day (targetPrice pos) pos) = SELL \<and>
               a_price (sellActivity getTime symb ?day (targetPrice pos) pos) = targetPrice pos \<and>
               a_quantity (sellActivity getTime symb ?day (targetPrice pos) pos) = quantity pos"
    by (simp add: closedTrade_def sellActivity_def)
  have tp: "\<forall>pos. targetPrice pos = buyPrice pos * (1 + targetPercent pos / 100)"
    by (simp add: targetPrice_def)
  show ?thesis
    unfolding Let_def
    using ind(1) ind(4) tr acts fields tp by (intro conjI) simp_all
qed

theorem lifo_exit_closes_each_lot_at_its_own_target_witness:
  "(20::nat) \<le> 20 \<and> 20 < length (ex2 100) \<and>
   internalOpenPositions twoLots = [lotA, lotB] \<and>
   targetPrice lotB < targetPrice lotA \<and>
   internalOpenPositions (exitPhase (\<lambda>_. 0) ''X'' LIFO (ex2 100 ! 20) twoLots) = [lotA] \<and>
   cash (exitPhase (\<lambda>_. 0) ''X'' LIFO (ex2 100 ! 20) twoLots) = 1954 \<and>
   map t_buyNumber (trades (simulateDay (\<lambda>_. 0) ''X'' (ex2 100) 100 LIFO 6 3 20 twoLots)) = [2] \<and>
   map t_sellPrice (trades (simulateDay (\<lambda>_. 0) ''X'' (ex2 100) 100 LIFO 6 3 20 twoLots)) = [954 / 10]"
proof -
  have h1: "(20::nat) \<le> 20" by simp
  have h2: "20 < length (ex2 100)" by (simp add: nth_ex2)
  have ps: "internalOpenPositions twoLots = [lotA, lotB]" "cash twoLots = 1000" "trades twoLots = []"
    by (simp_all add: twoLots_def)
  from lifo_exit_closes_each_lot_at_its_own_target [OF h1 h2, of twoLots "\<lambda>_. 0" "''X''" 100 6 3]
  show ?thesis
    using h2
    by (simp add: Let_def ps nth_ex2 flatBar_def closedTrade_def targetPrice_def lotA_def lotB_def)
qed

section \<open>Entries\<close>

text \<open>
  C3.  Whenever the ledger entry of day \<open>i\<close> (\<open>20 \<le> i < length candles\<close>) holds a BUY
  activity, tracking was armed and the day's high is above the trailing 20-bar high; the
  lot appended that day has as entry price the maximum high over bars \<open>i - 20 .. i - 1\<close>,
  as quantity \<open>floor (tradeAmount / entryPrice)\<close> (\<open>tradeAmount\<close> is \<open>perTradeAmount\<close> when
  it is given), as target percent the flat parameter \<open>targetProfitPercent\<close>; the buy
  happened with \<open>currentBuyNumber < avgLevels\<close>, and the sequence number was incremented.
\<close>

theorem buy_at_breakout_level:
  assumes "20 \<le> i" and "i < length candles"
      and "a \<in> set (d_activities (last (dailyLog
              (simulateDay getTime symb candles (tradeAmountOf initialCapital perTradeAmount)
                 exitStrategy targetProfitPercent avgLevels i s))))"
      and "a_type a = BUY"
  shows "let day = candles ! i;
             s2 = exitPhase getTime symb exitStrategy day s;
             s' = simulateDay getTime symb candles (tradeAmountOf initialCapital perTradeAmount)
                    exitStrategy targetProfitPercent avgLevels i s;
             entryPrice = Max ((\<lambda>k. high (candles ! k)) ` {i - 20..<i});
             qty = \<lfloor>tradeAmountOf initialCapital perTradeAmount / entryPrice\<rfloor>
         in (isTracking s2 \<or> low day \<le> twentyDayLow candles i) \<and>
            high day > entryPrice \<and>
            real (currentBuyNumber s2) < avgLevels \<and>
            currentBuyNumber s' = Suc (currentBuyNumber s2) \<and>
            internalOpenPositions s' = internalOpenPositions s2 @
              [\<lparr>buyDate = date day, buyPrice = entryPrice, quantity = qty,
                buyNumber = Suc (currentBuyNumber s2), targetPercent = targetProfitPercent\<rparr>] \<and>
            a_price a = entryPrice \<and> a_quantity a = qty \<and> 0 < qty \<and>
            (\<forall>p. perTradeAmount = Some p \<longrightarrow> qty = \<lfloor>p / entryPrice\<rfloor>)"
proof -
  let ?day = "candles ! i"
  let ?s2 = "exitPhase getTime symb exitStrategy ?day s"
  let ?ta = "tradeAmountOf initialCapital perTradeAmount"
  let ?s3 = "checkEntry symb ?ta targetProfitPercent avgLevels ?day (twentyDayHigh candles i)
               (twentyDayLow candles i) ?s2"
  have mem: "a \<in> set (activitiesToday ?s3)"
    using assms(3) by (simp add: simulateDay_last_log)
  have nob: "\<forall>b\<in>set (activitiesToday ?s2). a_type b \<noteq> BUY"
    using exitPhase_activities_SELL[of _ getTime symb exitStrategy ?day s] by auto
  note b = checkEntry_buy[OF mem assms(4) nob]
  have mx: "twentyDayHigh candles i = Max ((\<lambda>k. high (candles ! k)) ` {i - 20..<i})"
    using assms(1,2) by (intro twentyDayHigh_Max) simp_all
  have some: "\<forall>p. perTradeAmount = Some p \<longrightarrow> ?ta = p"
    by (simp add: tradeAmountOf_def)
  show ?thesis
    unfolding Let_def simulateDay_fields mx[symmetric]
    using b some by auto
qed

text \<open>
  C8, amended.  A breakout day (tracking armed, high above the trailing 20-bar high) with
  \<open>currentBuyNumber < avgLevels\<close>, so that the quantity is computed.  If the quantity is
  positive and the cash is less than \<open>quantity * entryPrice\<close>, the entry step changes
  exactly this: it appends one SKIPPED activity, increments the sequence number and resets
  \<open>isTracking\<close>; no lot is created, the cash and the trades are unchanged, and the day's
  activities hold exactly one SKIPPED activity and no BUY.  If the quantity is \<open>0\<close>, the
  entry step emits no activity at all and changes only the sequence number (incremented)
  and \<open>isTracking\<close> (reset); the day's activities are the sells of the exit step.
\<close>

theorem skipped_changes_counter_and_tracking_only:
  assumes "20 \<le> i" and "i < length candles"
      and "isTracking (exitPhase getTime symb exitStrategy (candles ! i) s)
           \<or> low (candles ! i) \<le> twentyDayLow candles i"
      and "high (candles ! i) > twentyDayHigh candles i"
      and "real (currentBuyNumber (exitPhase getTime symb exitStrategy (candles ! i) s)) < avgLevels"
  shows "let day = candles ! i;
             s2 = exitPhase getTime symb exitStrategy day s;
             entryPrice = twentyDayHigh candles i;
             s3 = checkEntry symb tradeAmount targetProfitPercent avgLevels day entryPrice
                    (twentyDayLow candles i) s2;
             s' = simulateDay getTime symb candles tradeAmount exitStrategy targetProfitPercent
                    avgLevels i s;
             qty = \<lfloor>tradeAmount / entryPrice\<rfloor>;
             acts = d_activities (last (dailyLog s'))
         in s' = endOfDay day s3 \<and>
            (qty > 0 \<and> cash s2 < real_of_int qty * entryPrice \<longrightarrow>
               s3 = s2\<lparr>isTracking := False, currentBuyNumber := Suc (currentBuyNumber s2),
                      activitiesToday := activitiesToday s2 @
                        [\<lparr>a_symbol = symb, a_type = SKIPPED, a_price = entryPrice,
                          a_quantity = 0, a_amount = 0,
                          a_buyNumber = Suc (currentBuyNumber s2), a_profit = None,
                          a_date = date day, a_holdingDays = None,
                          a_purchaseDate = None\<rparr>]\<rparr> \<and>
               length (filter (\<lambda>a. a_type a = SKIPPED) acts) = 1 \<and>
               (\<forall>a\<in>set acts. a_type a \<noteq> BUY) \<and>
               internalOpenPositions s' = internalOpenPositions s2 \<and>
               trades s' = trades s2 \<and>
               cash s' = cash s2 \<and> d_cash (last (dailyLog s')) = cash s2 \<and>
               currentBuyNumber s' = Suc (currentBuyNumber s2) \<and> \<not> isTracking s') \<and>
            (qty = 0 \<longrightarrow>
               s3 = s2\<lparr>isTracking := False, currentBuyNumber := Suc (currentBuyNumber s2)\<rparr> \<and>
               acts = activitiesToday s2 \<and> (\<forall>a\<in>set acts. a_type a = SELL) \<and>
               internalOpenPositions s' = internalOpenPositions s2 \<and>
               trades s' = trades s2 \<and>
               cash s' = cash s2 \<and> d_cash (last (dailyLog s')) = cash s2 \<and>
               currentBuyNumber s' = Suc (currentBuyNumber s2) \<and> \<not> isTracking s')"
proof -
  let ?day = "candles ! i"
  let ?s2 = "exitPhase getTime symb exitStrategy ?day s"
  let ?tH = "twentyDayHigh candles i"
  let ?s3 = "checkEntry symb tradeAmount targetProfitPercent avgLevels ?day ?tH
               (twentyDayLow candles i) ?s2"
  let ?s' = "simulateDay getTime symb candles tradeAmount exitStrategy targetProfitPercent
               avgLevels i s"
  let ?sk = "\<lparr>a_symbol = symb, a_type = SKIPPED, a_price = ?tH, a_quantity = 0, a_amount = 0,
              a_buyNumber = Suc (currentBuyNumber ?s2), a_profit = None, a_date = date ?day,
              a_holdingDays = None, a_purchaseDate = None\<rparr>"
  have sell: "\<forall>b\<in>set (activitiesToday ?s2). a_type b = SELL"
    using exitPhase_activities_SELL[of _ getTime symb exitStrategy ?day s] by auto
  have nosk: "filter (\<lambda>a. a_type a = SKIPPED) (activitiesToday ?s2) = []"
    using sell by (auto simp: filter_empty_conv)
  have day: "?s' = endOfDay ?day ?s3"
    by (rule simulateDay_unfold)
  have fld: "internalOpenPositions ?s' = internalOpenPositions ?s3" "trades ?s' = trades ?s3"
    "cash ?s' = cash ?s3" "currentBuyNumber ?s' = currentBuyNumber ?s3"
    "isTracking ?s' = isTracking ?s3"
    "d_activities (last (dailyLog ?s')) = activitiesToday ?s3"
    "d_cash (last (dailyLog ?s')) = cash ?s3"
    by (simp_all add: day endOfDay_simps endOfDay_log)
  have skip: "?s3 = ?s2\<lparr>isTracking := False, currentBuyNumber := Suc (currentBuyNumber ?s2),
                      activitiesToday := activitiesToday ?s2 @ [?sk]\<rparr>"
    if q: "\<lfloor>tradeAmount / ?tH\<rfloor> > 0" "cash ?s2 < real_of_int \<lfloor>tradeAmount / ?tH\<rfloor> * ?tH"
    by (rule checkEntry_skip_state[OF assms(3,4,5) q])
  have zero: "?s3 = ?s2\<lparr>isTracking := False, currentBuyNumber := Suc (currentBuyNumber ?s2)\<rparr>"
    if q: "\<lfloor>tradeAmount / ?tH\<rfloor> = 0"
    by (rule checkEntry_zero_state[OF assms(3,4,5) q])
  have A: "?s3 = ?s2\<lparr>isTracking := False, currentBuyNumber := Suc (currentBuyNumber ?s2),
                      activitiesToday := activitiesToday ?s2 @ [?sk]\<rparr> \<and>
           length (filter (\<lambda>a. a_type a = SKIPPED) (activitiesToday ?s3)) = 1 \<and>
           (\<forall>a\<in>set (activitiesToday ?s3). a_type a \<noteq> BUY) \<and>
           internalOpenPositions ?s3 = internalOpenPositions ?s2 \<and> trades ?s3 = trades ?s2 \<and>
           cash ?s3 = cash ?s2 \<and> currentBuyNumber ?s3 = Suc (currentBuyNumber ?s2) \<and>
           \<not> isTracking ?s3"
    if q: "\<lfloor>tradeAmount / ?tH\<rfloor> > 0" "cash ?s2 < real_of_int \<lfloor>tradeAmount / ?tH\<rfloor> * ?tH"
  proof -
    note e = skip[OF q]
    have "length (filter (\<lambda>a. a_type a = SKIPPED) (activitiesToday ?s3)) = 1"
      by (subst e) (simp add: nosk)
    moreover have "\<forall>a\<in>set (activitiesToday ?s3). a_type a \<noteq> BUY"
      by (subst e) (use sell in auto)
    moreover have "internalOpenPositions ?s3 = internalOpenPositions ?s2" "trades ?s3 = trades ?s2"
      "cash ?s3 = cash ?s2" "currentBuyNumber ?s3 = Suc (currentBuyNumber ?s2)" "\<not> isTracking ?s3"
      by (subst e, simp)+
    ultimately show ?thesis using e by blast
  qed
  have B: "?s3 = ?s2\<lparr>isTracking := False, currentBuyNumber := Suc (currentBuyNumber ?s2)\<rparr> \<and>
           activitiesToday ?s3 = activitiesToday ?s2 \<and>
           internalOpenPositions ?s3 = internalOpenPositions ?s2 \<and> trades ?s3 = trades ?s2 \<and>
           cash ?s3 = cash ?s2 \<and> currentBuyNumber ?s3 = Suc (currentBuyNumber ?s2) \<and>
           \<not> isTracking ?s3"
    if q: "\<lfloor>tradeAmount / ?tH\<rfloor> = 0"
  proof -
    note e = zero[OF q]
    have "activitiesToday ?s3 = activitiesToday ?s2"
      "internalOpenPositions ?s3 = internalOpenPositions ?s2" "trades ?s3 = trades ?s2"
      "cash ?s3 = cash ?s2" "currentBuyNumber ?s3 = Suc (currentBuyNumber ?s2)" "\<not> isTracking ?s3"
      by (subst e, simp)+
    then show ?thesis using e by blast
  qed
  have P1: "\<lfloor>tradeAmount / ?tH\<rfloor> > 0 \<and>
            cash ?s2 < real_of_int \<lfloor>tradeAmount / ?tH\<rfloor> * ?tH \<longrightarrow>
      ?s3 = ?s2\<lparr>isTracking := False, currentBuyNumber := Suc (currentBuyNumber ?s2),
                      activitiesToday := activitiesToday ?s2 @ [?sk]\<rparr> \<and>
      length (filter (\<lambda>a. a_type a = SKIPPED) (d_activities (last (dailyLog ?s')))) = 1 \<and>
      (\<forall>a\<in>set (d_activities (last (dailyLog ?s'))). a_type a \<noteq> BUY) \<and>
      internalOpenPositions ?s' = internalOpenPositions ?s2 \<and>
      trades ?s' = trades ?s2 \<and>
      cash ?s' = cash ?s2 \<and> d_cash (last (dailyLog ?s')) = cash ?s2 \<and>
      currentBuyNumber ?s' = Suc (currentBuyNumber ?s2) \<and> \<not> isTracking ?s'"
  proof (intro impI, elim conjE)
    assume q: "\<lfloor>tradeAmount / ?tH\<rfloor> > 0"
              "cash ?s2 < real_of_int \<lfloor>tradeAmount / ?tH\<rfloor> * ?tH"
    show "?s3 = ?s2\<lparr>isTracking := False, currentBuyNumber := Suc (currentBuyNumber ?s2),
                      activitiesToday := activitiesToday ?s2 @ [?sk]\<rparr> \<and>
      length (filter (\<lambda>a. a_type a = SKIPPED) (d_activities (last (dailyLog ?s')))) = 1 \<and>
      (\<forall>a\<in>set (d_activities (last (dailyLog ?s'))). a_type a \<noteq> BUY) \<and>
      internalOpenPositions ?s' = internalOpenPositions ?s2 \<and>
      trades ?s' = trades ?s2 \<and>
      cash ?s' = cash ?s2 \<and> d_cash (last (dailyLog ?s')) = cash ?s2 \<and>
      currentBuyNumber ?s' = Suc (currentBuyNumber ?s2) \<and> \<not> isTracking ?s'"
      unfolding fld using A[OF q] by blast
  qed
  have P2: "\<lfloor>tradeAmount / ?tH\<rfloor> = 0 \<longrightarrow>
      ?s3 = ?s2\<lparr>isTracking := False, currentBuyNumber := Suc (currentBuyNumber ?s2)\<rparr> \<and>
      d_activities (last (dailyLog ?s')) = activitiesToday ?s2 \<and>
      (\<forall>a\<in>set (d_activities (last (dailyLog ?s'))). a_type a = SELL) \<and>
      internalOpenPositions ?s' = internalOpenPositions ?s2 \<and>
      trades ?s' = trades ?s2 \<and>
      cash ?s' = cash ?s2 \<and> d_cash (last (dailyLog ?s')) = cash ?s2 \<and>
      currentBuyNumber ?s' = Suc (currentBuyNumber ?s2) \<and> \<not> isTracking ?s'"
  proof (intro impI)
    assume q: "\<lfloor>tradeAmount / ?tH\<rfloor> = 0"
    have "\<forall>a\<in>set (activitiesToday ?s3). a_type a = SELL"
      using B[OF q] sell by simp
    then show "?s3 = ?s2\<lparr>isTracking := False, currentBuyNumber := Suc (currentBuyNumber ?s2)\<rparr> \<and>
      d_activities (last (dailyLog ?s')) = activitiesToday ?s2 \<and>
      (\<forall>a\<in>set (d_activities (last (dailyLog ?s'))). a_type a = SELL) \<and>
      internalOpenPositions ?s' = internalOpenPositions ?s2 \<and>
      trades ?s' = trades ?s2 \<and>
      cash ?s' = cash ?s2 \<and> d_cash (last (dailyLog ?s')) = cash ?s2 \<and>
      currentBuyNumber ?s' = Suc (currentBuyNumber ?s2) \<and> \<not> isTracking ?s'"
      unfolding fld using B[OF q] by blast
  qed
  show ?thesis
    unfolding Let_def using day P1 P2 by blast
qed

lemma max_ex1_20: "Max ((\<lambda>k. high (ex1 ! k)) ` {0..<20}) = 10"
  using twentyDayHigh_Max[of 20 ex1] w20(1) by (simp add: ex1_def)

lemma simInit_simps:
  "cash (simInit c) = c" "currentBuyNumber (simInit c) = 0" "internalOpenPositions (simInit c) = []"
  "isTracking (simInit c) = False" "trades (simInit c) = []" "dailyLog (simInit c) = []"
  by (simp_all add: simInit_def)

lemma exit_simInit:
  "exitPhase g sy es day (simInit c) = simInit c"
  by (simp add: exit_empty simInit_def)

theorem buy_at_breakout_level_witness:
  "(20::nat) \<le> 20 \<and> 20 < length ex1 \<and>
   buy1 \<in> set (d_activities (last (dailyLog
      (simulateDay (\<lambda>_. 0) ''X'' ex1 (tradeAmountOf 1000 (Some 100)) LIFO 6 3 20 (simInit 1000))))) \<and>
   a_type buy1 = BUY \<and>
   internalOpenPositions
      (simulateDay (\<lambda>_. 0) ''X'' ex1 (tradeAmountOf 1000 (Some 100)) LIFO 6 3 20 (simInit 1000)) =
     [\<lparr>buyDate = ''d'', buyPrice = 10, quantity = 10, buyNumber = 1, targetPercent = 6\<rparr>] \<and>
   high (ex1 ! 20) > 10 \<and> close (ex1 ! 20) = 11"
proof -
  have h1: "(20::nat) \<le> 20" by simp
  have h2: "20 < length ex1" by (simp add: ex1_def)
  have ta: "tradeAmountOf 1000 (Some 100) = 100" by (simp add: tradeAmountOf_def)
  have h3: "buy1 \<in> set (d_activities (last (dailyLog
      (simulateDay (\<lambda>_. 0) ''X'' ex1 (tradeAmountOf 1000 (Some 100)) LIFO 6 3 20 (simInit 1000)))))"
    by (simp add: ta day20 buy1_def)
  have h4: "a_type buy1 = BUY" by (simp add: buy1_def)
  from buy_at_breakout_level [OF h1 h2 h3 h4]
  show ?thesis
    using h2 h3 h4
    by (simp add: Let_def max_ex1_20 exit_simInit ta nth_ex1 flatBar_def simInit_simps)
qed

text \<open>
  The first simulated day of \<open>ex1\<close> with a cash of 50 and a trade amount of 100: tracking is
  armed, the high breaks the trailing 20-bar high, the quantity is 10 and the cash is less
  than \<open>10 * entryPrice\<close>.  The sequence number is 0 before the entry step and 1 after it,
  so the state after the entry step is not the state before it: the sentence C8 of the
  specification, with its "makes no state change", does not hold.
\<close>

theorem skipped_no_state_change_counterexample:
  "20 < length ex1 \<and>
   low (ex1 ! 20) \<le> twentyDayLow ex1 20 \<and> high (ex1 ! 20) > twentyDayHigh ex1 20 \<and>
   \<lfloor>100 / twentyDayHigh ex1 20\<rfloor> = 10 \<and>
   cash (exitPhase noTime ''X'' LIFO (ex1 ! 20) (simInit 50)) < 10 * twentyDayHigh ex1 20 \<and>
   currentBuyNumber (exitPhase noTime ''X'' LIFO (ex1 ! 20) (simInit 50)) = 0 \<and>
   currentBuyNumber (simulateDay noTime ''X'' ex1 100 LIFO 6 3 20 (simInit 50)) = 1 \<and>
   checkEntry ''X'' 100 6 3 (ex1 ! 20) (twentyDayHigh ex1 20) (twentyDayLow ex1 20)
       (exitPhase noTime ''X'' LIFO (ex1 ! 20) (simInit 50))
     \<noteq> exitPhase noTime ''X'' LIFO (ex1 ! 20) (simInit 50)"
proof -
  have l: "20 < length ex1" by (simp add: ex1_def)
  have c: "currentBuyNumber (checkEntry ''X'' 100 6 3 (ex1 ! 20) (twentyDayHigh ex1 20)
              (twentyDayLow ex1 20) (simInit 50)) = 1"
    by (simp add: checkEntry_def Let_def w20 nth_ex1 flatBar_def simInit_def)
  have n: "checkEntry ''X'' 100 6 3 (ex1 ! 20) (twentyDayHigh ex1 20) (twentyDayLow ex1 20)
             (simInit 50) \<noteq> simInit 50"
  proof
    assume "checkEntry ''X'' 100 6 3 (ex1 ! 20) (twentyDayHigh ex1 20) (twentyDayLow ex1 20)
             (simInit 50) = simInit 50"
    then have "currentBuyNumber (checkEntry ''X'' 100 6 3 (ex1 ! 20) (twentyDayHigh ex1 20)
              (twentyDayLow ex1 20) (simInit 50)) = currentBuyNumber (simInit 50)"
      by simp
    with c show False by (simp add: simInit_simps)
  qed
  show ?thesis
    using l c n
    by (simp add: simulateDay_fields exit_simInit simInit_simps w20 nth_ex1 flatBar_def)
qed

theorem skipped_changes_counter_and_tracking_only_witness:
  "(20::nat) \<le> 20 \<and> 20 < length ex1 \<and>
   low (ex1 ! 20) \<le> twentyDayLow ex1 20 \<and> high (ex1 ! 20) > twentyDayHigh ex1 20 \<and>
   real (currentBuyNumber (exitPhase (\<lambda>_. 0) ''X'' LIFO (ex1 ! 20) (simInit 50))) < 3 \<and>
   \<lfloor>100 / twentyDayHigh ex1 20\<rfloor> = 10 \<and>
   length (filter (\<lambda>a. a_type a = SKIPPED)
      (d_activities (last (dailyLog (simulateDay (\<lambda>_. 0) ''X'' ex1 100 LIFO 6 3 20 (simInit 50)))))) = 1 \<and>
   internalOpenPositions (simulateDay (\<lambda>_. 0) ''X'' ex1 100 LIFO 6 3 20 (simInit 50)) = [] \<and>
   cash (simulateDay (\<lambda>_. 0) ''X'' ex1 100 LIFO 6 3 20 (simInit 50)) = 50 \<and>
   currentBuyNumber (simulateDay (\<lambda>_. 0) ''X'' ex1 100 LIFO 6 3 20 (simInit 50)) = 1 \<and>
   \<not> isTracking (simulateDay (\<lambda>_. 0) ''X'' ex1 100 LIFO 6 3 20 (simInit 50)) \<and>
   \<lfloor>5 / twentyDayHigh ex1 20\<rfloor> = 0 \<and>
   d_activities (last (dailyLog (simulateDay (\<lambda>_. 0) ''X'' ex1 5 LIFO 6 3 20 (simInit 50)))) = [] \<and>
   cash (simulateDay (\<lambda>_. 0) ''X'' ex1 5 LIFO 6 3 20 (simInit 50)) = 50 \<and>
   currentBuyNumber (simulateDay (\<lambda>_. 0) ''X'' ex1 5 LIFO 6 3 20 (simInit 50)) = 1"
proof -
  have h1: "(20::nat) \<le> 20" by simp
  have h2: "20 < length ex1" by (simp add: ex1_def)
  have h3: "isTracking (exitPhase (\<lambda>_. 0) ''X'' LIFO (ex1 ! 20) (simInit 50))
            \<or> low (ex1 ! 20) \<le> twentyDayLow ex1 20"
    by (simp add: w20 nth_ex1 flatBar_def)
  have h4: "high (ex1 ! 20) > twentyDayHigh ex1 20"
    by (simp add: w20 nth_ex1 flatBar_def)
  have h5: "real (currentBuyNumber (exitPhase (\<lambda>_. 0) ''X'' LIFO (ex1 ! 20) (simInit 50))) < 3"
    by (simp add: exit_simInit simInit_simps)
  have e: "activitiesToday (simInit 50) = []" by (simp add: simInit_def)
  have q: "(0::int) < \<lfloor>100 / twentyDayHigh ex1 20\<rfloor>" "\<lfloor>5 / twentyDayHigh ex1 20\<rfloor> = 0"
    "cash (exitPhase (\<lambda>_. 0) ''X'' LIFO (ex1 ! 20) (simInit 50))
       < real_of_int \<lfloor>100 / twentyDayHigh ex1 20\<rfloor> * twentyDayHigh ex1 20"
    "\<lfloor>100 / twentyDayHigh ex1 20\<rfloor> = 10"
    by (simp_all add: w20 exit_simInit simInit_simps)
  note t1 = skipped_changes_counter_and_tracking_only [OF h1 h2 h3 h4 h5, of 100 6, unfolded Let_def]
  note t2 = skipped_changes_counter_and_tracking_only [OF h1 h2 h3 h4 h5, of 5 6, unfolded Let_def]
  from t1 q(1,3) have a:
    "length (filter (\<lambda>a. a_type a = SKIPPED)
      (d_activities (last (dailyLog (simulateDay (\<lambda>_. 0) ''X'' ex1 100 LIFO 6 3 20 (simInit 50)))))) = 1"
    "internalOpenPositions (simulateDay (\<lambda>_. 0) ''X'' ex1 100 LIFO 6 3 20 (simInit 50)) =
       internalOpenPositions (exitPhase (\<lambda>_. 0) ''X'' LIFO (ex1 ! 20) (simInit 50))"
    "cash (simulateDay (\<lambda>_. 0) ''X'' ex1 100 LIFO 6 3 20 (simInit 50)) =
       cash (exitPhase (\<lambda>_. 0) ''X'' LIFO (ex1 ! 20) (simInit 50))"
    "currentBuyNumber (simulateDay (\<lambda>_. 0) ''X'' ex1 100 LIFO 6 3 20 (simInit 50)) =
       Suc (currentBuyNumber (exitPhase (\<lambda>_. 0) ''X'' LIFO (ex1 ! 20) (simInit 50)))"
    "\<not> isTracking (simulateDay (\<lambda>_. 0) ''X'' ex1 100 LIFO 6 3 20 (simInit 50))"
    by blast+
  from t2 q(2) have b:
    "d_activities (last (dailyLog (simulateDay (\<lambda>_. 0) ''X'' ex1 5 LIFO 6 3 20 (simInit 50)))) =
       activitiesToday (exitPhase (\<lambda>_. 0) ''X'' LIFO (ex1 ! 20) (simInit 50))"
    "cash (simulateDay (\<lambda>_. 0) ''X'' ex1 5 LIFO 6 3 20 (simInit 50)) =
       cash (exitPhase (\<lambda>_. 0) ''X'' LIFO (ex1 ! 20) (simInit 50))"
    "currentBuyNumber (simulateDay (\<lambda>_. 0) ''X'' ex1 5 LIFO 6 3 20 (simInit 50)) =
       Suc (currentBuyNumber (exitPhase (\<lambda>_. 0) ''X'' LIFO (ex1 ! 20) (simInit 50)))"
    by blast+
  show ?thesis
    using h2 h4 h5 q a b
    by (simp add: w20 exit_simInit nth_ex1 flatBar_def simInit_simps e)
qed

section \<open>Runs without a breakout\<close>

lemma simulateUpto_Suc:
  "20 \<le> n \<Longrightarrow>
   simulateUpto g sy candles ic pta es tpp lv (Suc n) =
     simulateDay g sy candles (tradeAmountOf ic pta) es tpp lv n
       (simulateUpto g sy candles ic pta es tpp lv n)"
  by (simp add: simulateUpto_def)

lemma simulateUpto_start:
  "n \<le> 20 \<Longrightarrow> simulateUpto g sy candles ic pta es tpp lv n = simInit ic"
  by (simp add: simulateUpto_def)

lemma checkEntry_no_breakout:
  "\<not> high day > tHigh \<Longrightarrow>
   checkEntry sy ta tpp lv day tHigh tLow s = (if low day \<le> tLow then s\<lparr>isTracking := True\<rparr> else s)"
  by (simp add: checkEntry_def Let_def)

lemma quiet_day:
  assumes "\<not> high (candles ! i) > twentyDayHigh candles i"
      and "internalOpenPositions s = []" and "currentBuyNumber s = 0"
  shows "cash (simulateDay g sy candles ta es tpp lv i s) = cash s"
    and "internalOpenPositions (simulateDay g sy candles ta es tpp lv i s) = []"
    and "trades (simulateDay g sy candles ta es tpp lv i s) = trades s"
    and "currentBuyNumber (simulateDay g sy candles ta es tpp lv i s) = 0"
  using assms
  by (simp_all add: simulateDay_unfold endOfDay_simps checkEntry_no_breakout exit_empty)

lemma no_breakout_state:
  assumes "\<forall>i. 20 \<le> i \<and> i < length candles \<longrightarrow> high (candles ! i) \<le> twentyDayHigh candles i"
      and "n \<le> length candles"
  shows "cash (simulateUpto g sy candles ic pta es tpp lv n) = ic \<and>
         internalOpenPositions (simulateUpto g sy candles ic pta es tpp lv n) = [] \<and>
         trades (simulateUpto g sy candles ic pta es tpp lv n) = [] \<and>
         currentBuyNumber (simulateUpto g sy candles ic pta es tpp lv n) = 0"
  using assms(2)
proof (induction n)
  case 0
  then show ?case by (simp add: simulateUpto_start simInit_simps)
next
  case (Suc n)
  show ?case
  proof (cases "20 \<le> n")
    case False
    then show ?thesis by (simp add: simulateUpto_start simInit_simps)
  next
    case True
    from Suc.prems have n: "n < length candles" by simp
    with True assms(1) have q: "\<not> high (candles ! n) > twentyDayHigh candles n"
      by (simp add: not_less)
    from Suc.IH n have ih:
      "cash (simulateUpto g sy candles ic pta es tpp lv n) = ic"
      "internalOpenPositions (simulateUpto g sy candles ic pta es tpp lv n) = []"
      "trades (simulateUpto g sy candles ic pta es tpp lv n) = []"
      "currentBuyNumber (simulateUpto g sy candles ic pta es tpp lv n) = 0"
      by simp_all
    show ?thesis
      unfolding simulateUpto_Suc[OF True]
      using quiet_day[OF q ih(2) ih(4)] ih by simp
  qed
qed

text \<open>
  C4.  At least 21 bars and no breakout ever (for every \<open>i \<ge> 20\<close> the high of bar \<open>i\<close> is at
  most the maximum high of bars \<open>i - 20 .. i - 1\<close>): \<open>runBacktest\<close> returns a result with
  an empty trade list, \<open>totalTrades = 0\<close>, no open positions, and
  \<open>finalCapital = initialCapital\<close>.
\<close>

theorem no_breakout_no_trades:
  assumes "length candles \<ge> 21"
      and "\<forall>i. 20 \<le> i \<and> i < length candles \<longrightarrow>
             high (candles ! i) \<le> Max ((\<lambda>k. high (candles ! k)) ` {i - 20..<i})"
  shows "\<exists>r. runBacktest getTime symb candles initialCapital perTradeAmount exitStrategy
                targetProfitPercent avgLevels = Some r \<and>
             r_trades r = [] \<and> r_totalTrades r = 0 \<and> r_openPositions r = [] \<and>
             r_finalCapital r = initialCapital"
proof -
  have nb: "\<forall>i. 20 \<le> i \<and> i < length candles \<longrightarrow> high (candles ! i) \<le> twentyDayHigh candles i"
    using assms(2) by (simp add: twentyDayHigh_Max)
  note st = no_breakout_state[OF nb order_refl, of getTime symb initialCapital perTradeAmount
              exitStrategy targetProfitPercent avgLevels]
  show ?thesis
    using assms(1) st by (simp add: runBacktest_def Let_def)
qed

theorem no_breakout_no_trades_witness:
  "length exFlat \<ge> 21 \<and>
   map_option r_totalTrades (runBacktest (\<lambda>_. 0) ''X'' exFlat 1000 None LIFO 6 3) = Some 0 \<and>
   map_option r_finalCapital (runBacktest (\<lambda>_. 0) ''X'' exFlat 1000 None LIFO 6 3) = Some 1000 \<and>
   map_option r_openPositions (runBacktest (\<lambda>_. 0) ''X'' exFlat 1000 None LIFO 6 3) = Some []"
proof -
  have h1: "length exFlat \<ge> 21" by (simp add: exFlat_def)
  have h2: "\<forall>i. 20 \<le> i \<and> i < length exFlat \<longrightarrow>
             high (exFlat ! i) \<le> Max ((\<lambda>k. high (exFlat ! k)) ` {i - 20..<i})"
  proof (intro allI impI)
    fix i assume i: "20 \<le> i \<and> i < length exFlat"
    then have "(\<lambda>k. high (exFlat ! k)) ` {i - 20..<i} = {10}"
      by (force simp: exFlat_def flatBar_def)
    with i show "high (exFlat ! i) \<le> Max ((\<lambda>k. high (exFlat ! k)) ` {i - 20..<i})"
      by (simp add: exFlat_def flatBar_def)
  qed
  from no_breakout_no_trades [OF h1 h2, of "\<lambda>_. 0" "''X''" 1000 None LIFO 6 3]
  show ?thesis using h1 by auto
qed

section \<open>Two evaluated runs\<close>

lemma simulateUpto_ex1:
  "simulateUpto g sy ex1 ic pta es tpp lv (length ex1) =
     simulateDay g sy ex1 (tradeAmountOf ic pta) es tpp lv 21
       (simulateDay g sy ex1 (tradeAmountOf ic pta) es tpp lv 20 (simInit ic))"
proof -
  have l: "length ex1 = Suc 21" by (simp add: ex1_def)
  have a: "simulateUpto g sy ex1 ic pta es tpp lv (Suc 21) =
      simulateDay g sy ex1 (tradeAmountOf ic pta) es tpp lv 21
        (simulateUpto g sy ex1 ic pta es tpp lv 21)"
    by (rule simulateUpto_Suc) simp
  have b: "simulateUpto g sy ex1 ic pta es tpp lv (Suc 20) =
      simulateDay g sy ex1 (tradeAmountOf ic pta) es tpp lv 20
        (simulateUpto g sy ex1 ic pta es tpp lv 20)"
    by (rule simulateUpto_Suc) simp
  have c: "simulateUpto g sy ex1 ic pta es tpp lv 20 = simInit ic"
    by (rule simulateUpto_start) simp
  have d: "Suc 20 = 21" by simp
  show ?thesis
    unfolding l a b[unfolded d] c ..
qed

lemma day21:
  "simulateDay g ''X'' ex1 100 LIFO 6 3 21
     (simulateDay g ''X'' ex1 100 LIFO 6 3 20 (simInit 1000)) =
     \<lparr>cash = 900, isTracking = True, currentBuyNumber = 1,
      internalOpenPositions = [\<lparr>buyDate = ''d'', buyPrice = 10, quantity = 10, buyNumber = 1, targetPercent = 6\<rparr>],
      maxEquity = 1010, maxDrawdown = Some (50 / 101),
      trades = [], dailyLog = [\<lparr>d_date = ''d'', d_cash = 900, d_invested = 110, d_equity = 1010, d_profit = 0,
         d_activities = [\<lparr>a_symbol = ''X'', a_type = BUY, a_price = 10,
                 a_quantity = 10, a_amount = 100, a_buyNumber = 1,
                 a_profit = None, a_date = ''d'', a_holdingDays = None,
                 a_purchaseDate = None\<rparr>]\<rparr>,
         \<lparr>d_date = ''e'', d_cash = 900, d_invested = 105, d_equity = 1005, d_profit = 0,
           d_activities = []\<rparr>], positionsToClose = [],
      activitiesToday = []\<rparr>"
  unfolding day20
  by (simp add: simulateDay_unfold w21 nth_ex1 exitPhase_def checkSells_def removeClosed_def
        targetPrice_def checkEntry_def endOfDay_def flatBar_def Let_def)

lemma day20_short:
  "simulateDay g ''X'' ex1 100 LIFO (- 200) 3 20 (simInit 100) =
     \<lparr>cash = 0, isTracking = False, currentBuyNumber = 1,
      internalOpenPositions = [\<lparr>buyDate = ''d'', buyPrice = 10, quantity = 10, buyNumber = 1, targetPercent = - 200\<rparr>],
      maxEquity = 110, maxDrawdown = Some 0,
      trades = [], dailyLog = [\<lparr>d_date = ''d'', d_cash = 0, d_invested = 110, d_equity = 110, d_profit = 0,
         d_activities = [\<lparr>a_symbol = ''X'', a_type = BUY, a_price = 10,
                 a_quantity = 10, a_amount = 100, a_buyNumber = 1,
                 a_profit = None, a_date = ''d'', a_holdingDays = None,
                 a_purchaseDate = None\<rparr>]\<rparr>], positionsToClose = [],
      activitiesToday = [\<lparr>a_symbol = ''X'', a_type = BUY, a_price = 10,
                 a_quantity = 10, a_amount = 100, a_buyNumber = 1,
                 a_profit = None, a_date = ''d'', a_holdingDays = None,
                 a_purchaseDate = None\<rparr>]\<rparr>"
  by (simp add: simulateDay_unfold w20 nth_ex1 exit_empty simInit_def checkEntry_def endOfDay_def flatBar_def Let_def)

lemma day21_short:
  "map d_cash (dailyLog (simulateDay g ''X'' ex1 100 LIFO (- 200) 3 21
     (simulateDay g ''X'' ex1 100 LIFO (- 200) 3 20 (simInit 100)))) = [0, - 100]"
  unfolding day20_short
  by (simp add: simulateDay_unfold w21 nth_ex1 exitPhase_def checkSells_def removeClosed_def
        targetPrice_def closePosition_def checkEntry_def endOfDay_def flatBar_def Let_def)

text \<open>
  The run of \<open>ex1\<close> with \<open>initialCapital = 100\<close> and \<open>targetProfitPercent = -200\<close>: the lot
  bought at 10 has the target price \<open>-10\<close>, is sold there on the next day, and the ledger
  records a cash of \<open>-100\<close>.  So the sentence C10 of the specification, for every bar
  sequence and every nonnegative initial capital, does not hold.
\<close>

theorem cash_negative_counterexample:
  "length ex1 \<ge> 21 \<and> (0::real) \<le> 100 \<and>
   map_option (map d_cash \<circ> r_dailyLog)
     (runBacktest noTime ''X'' ex1 100 (Some 100) LIFO (- 200) 3) = Some [0, - 100] \<and>
   (- 100::real) < 0"
proof -
  have l: "\<not> length ex1 < 21" "length ex1 \<ge> 21" by (simp_all add: ex1_def)
  have ta: "tradeAmountOf 100 (Some 100) = 100" by (simp add: tradeAmountOf_def)
  show ?thesis
    using l by (simp add: runBacktest_def Let_def simulateUpto_ex1 ta day21_short)
qed

section \<open>Cash\<close>

lemma targetPrice_nonneg:
  "buyPrice p \<ge> 0 \<Longrightarrow> targetPercent p \<ge> - 100 \<Longrightarrow> targetPrice p \<ge> 0"
  by (simp add: targetPrice_def)

lemma weightedAvgPrice_nonneg:
  assumes "\<forall>p\<in>set ps. quantity p > 0 \<and> buyPrice p \<ge> 0"
  shows "weightedAvgPrice ps \<ge> 0"
proof -
  have "(\<Sum>p\<leftarrow>ps. real_of_int (quantity p) * buyPrice p) \<ge> 0"
    using assms by (intro sum_list_nonneg) auto
  then show ?thesis
    by (simp add: weightedAvgPrice_sum)
qed

lemma aggregateTargetPrice_nonneg:
  assumes "ps \<noteq> []"
      and "\<forall>p\<in>set ps. quantity p > 0 \<and> buyPrice p \<ge> 0 \<and> targetPercent p \<ge> - 100"
  shows "aggregateTargetPrice ps \<ge> 0"
proof -
  have "ps ! 0 \<in> set ps" using assms(1) by simp
  with assms(2) have "targetPercent (ps ! 0) \<ge> - 100" by blast
  moreover have "weightedAvgPrice ps \<ge> 0"
    using assms(2) by (intro weightedAvgPrice_nonneg) auto
  ultimately show ?thesis
    by (simp add: aggregateTargetPrice_def Let_def)
qed

lemma exitPhase_dailyLog: "dailyLog (exitPhase g sy es day s) = dailyLog s"
proof (cases "es = LIFO \<or> internalOpenPositions s = []")
  case True
  then show ?thesis by (rule exitPhase_individual(5))
next
  case False
  then have es: "es = WEIGHTED_AVERAGE" and ne: "internalOpenPositions s \<noteq> []"
    by (cases es; simp)+
  show ?thesis
    unfolding es
    by (cases "high day \<ge> aggregateTargetPrice (internalOpenPositions s)")
       (simp_all add: exitPhase_WA_hit(5)[OF ne] exitPhase_WA_miss(5)[OF ne])
qed

lemma exitPhase_keeps_cash_nonneg:
  assumes "cash s \<ge> 0"
      and "\<forall>p\<in>set (internalOpenPositions s).
             quantity p > 0 \<and> buyPrice p \<ge> 0 \<and> targetPercent p \<ge> - 100"
  shows "cash (exitPhase g sy es day s) \<ge> 0"
    and "\<forall>p\<in>set (internalOpenPositions (exitPhase g sy es day s)).
             quantity p > 0 \<and> buyPrice p \<ge> 0 \<and> targetPercent p \<ge> - 100"
proof -
  let ?ps = "internalOpenPositions s"
  have both: "cash (exitPhase g sy es day s) \<ge> 0 \<and>
      (\<forall>p\<in>set (internalOpenPositions (exitPhase g sy es day s)).
             quantity p > 0 \<and> buyPrice p \<ge> 0 \<and> targetPercent p \<ge> - 100)"
  proof (cases "es = LIFO \<or> ?ps = []")
    case True
    have "(\<Sum>pos\<leftarrow>filter (\<lambda>pos. high day \<ge> targetPrice pos) ?ps.
             real_of_int (quantity pos) * targetPrice pos) \<ge> 0"
      using assms(2) by (intro sum_list_nonneg) (auto simp: targetPrice_nonneg)
    then show ?thesis
      using assms by (simp add: exitPhase_individual(1,4)[OF True])
  next
    case False
    then have es: "es = WEIGHTED_AVERAGE" and ne: "?ps \<noteq> []"
      by (cases es; simp)+
    show ?thesis
    proof (cases "high day \<ge> aggregateTargetPrice ?ps")
      case True
      have "aggregateTargetPrice ?ps \<ge> 0"
        using ne assms(2) by (rule aggregateTargetPrice_nonneg)
      then have "(\<Sum>pos\<leftarrow>?ps. real_of_int (quantity pos) * aggregateTargetPrice ?ps) \<ge> 0"
        using assms(2) by (intro sum_list_nonneg) auto
      then show ?thesis
        using assms(1) unfolding es by (simp add: exitPhase_WA_hit(1,4)[OF ne True])
    next
      case False
      then show ?thesis
        using assms unfolding es by (simp add: exitPhase_WA_miss(1,4)[OF ne False])
    qed
  qed
  from both show "cash (exitPhase g sy es day s) \<ge> 0" by simp
  from both show "\<forall>p\<in>set (internalOpenPositions (exitPhase g sy es day s)).
             quantity p > 0 \<and> buyPrice p \<ge> 0 \<and> targetPercent p \<ge> - 100" by simp
qed

lemma checkEntry_dailyLog: "dailyLog (checkEntry sy ta tpp lv day tHigh tLow s) = dailyLog s"
  by (auto simp: checkEntry_def Let_def)

lemma checkEntry_keeps_cash_nonneg:
  assumes "cash s \<ge> 0" and "tHigh \<ge> 0" and "tpp \<ge> - 100"
      and "\<forall>p\<in>set (internalOpenPositions s).
             quantity p > 0 \<and> buyPrice p \<ge> 0 \<and> targetPercent p \<ge> - 100"
  shows "cash (checkEntry sy ta tpp lv day tHigh tLow s) \<ge> 0"
    and "\<forall>p\<in>set (internalOpenPositions (checkEntry sy ta tpp lv day tHigh tLow s)).
             quantity p > 0 \<and> buyPrice p \<ge> 0 \<and> targetPercent p \<ge> - 100"
  using assms by (auto simp: checkEntry_def Let_def)

lemma twentyDayHigh_nonneg:
  assumes "20 \<le> i" and "i \<le> length candles" and "\<forall>c\<in>set candles. high c \<ge> 0"
  shows "twentyDayHigh candles i \<ge> 0"
proof -
  let ?S = "(\<lambda>k. high (candles ! k)) ` {i - 20..<i}"
  have ne: "?S \<noteq> {}" using assms(1) by simp
  have "Max ?S \<in> ?S" using ne by (intro Max_in) simp_all
  then obtain k where k: "k < i" "Max ?S = high (candles ! k)" by auto
  with assms(2) have "candles ! k \<in> set candles" by simp
  with assms(3) k show ?thesis
    by (simp add: twentyDayHigh_Max[OF assms(1,2)])
qed

lemma simulateDay_dailyLog:
  "dailyLog (simulateDay g sy candles ta es tpp lv i s) = dailyLog s @
     [\<lparr>d_date = date (candles ! i),
       d_cash = cash (simulateDay g sy candles ta es tpp lv i s),
       d_invested = (\<Sum>pos\<leftarrow>internalOpenPositions (simulateDay g sy candles ta es tpp lv i s).
                       real_of_int (quantity pos) * close (candles ! i)),
       d_equity = cash (simulateDay g sy candles ta es tpp lv i s) +
                  (\<Sum>pos\<leftarrow>internalOpenPositions (simulateDay g sy candles ta es tpp lv i s).
                       real_of_int (quantity pos) * close (candles ! i)),
       d_profit = 0,
       d_activities = d_activities (last (dailyLog (simulateDay g sy candles ta es tpp lv i s)))\<rparr>]"
  by (simp add: simulateDay_unfold endOfDay_log endOfDay_simps checkEntry_dailyLog exitPhase_dailyLog)

lemma run_keeps_cash_nonneg:
  assumes "initialCapital \<ge> 0" and "targetProfitPercent \<ge> - 100"
      and "\<forall>c\<in>set candles. high c \<ge> 0" and "n \<le> length candles"
  shows "cash (simulateUpto g sy candles initialCapital pta es targetProfitPercent lv n) \<ge> 0 \<and>
         (\<forall>p\<in>set (internalOpenPositions
                      (simulateUpto g sy candles initialCapital pta es targetProfitPercent lv n)).
             quantity p > 0 \<and> buyPrice p \<ge> 0 \<and> targetPercent p \<ge> - 100) \<and>
         (\<forall>d\<in>set (dailyLog
                      (simulateUpto g sy candles initialCapital pta es targetProfitPercent lv n)).
             d_cash d \<ge> 0)"
  using assms(4)
proof (induction n)
  case 0
  then show ?case using assms(1) by (simp add: simulateUpto_start simInit_simps)
next
  case (Suc n)
  show ?case
  proof (cases "20 \<le> n")
    case False
    then show ?thesis using assms(1) by (simp add: simulateUpto_start simInit_simps)
  next
    case True
    let ?s = "simulateUpto g sy candles initialCapital pta es targetProfitPercent lv n"
    let ?s2 = "exitPhase g sy es (candles ! n) ?s"
    let ?s3 = "checkEntry sy (tradeAmountOf initialCapital pta) targetProfitPercent lv (candles ! n)
                 (twentyDayHigh candles n) (twentyDayLow candles n) ?s2"
    let ?s' = "simulateDay g sy candles (tradeAmountOf initialCapital pta) es targetProfitPercent lv n ?s"
    from Suc.prems have n: "n \<le> length candles" by simp
    from Suc.IH[OF n] have ih1: "cash ?s \<ge> 0"
      and ih2: "\<forall>p\<in>set (internalOpenPositions ?s).
                  quantity p > 0 \<and> buyPrice p \<ge> 0 \<and> targetPercent p \<ge> - 100"
      and ih3: "\<forall>d\<in>set (dailyLog ?s). d_cash d \<ge> 0"
      by simp_all
    note e = exitPhase_keeps_cash_nonneg[OF ih1 ih2, of g sy es "candles ! n"]
    have th: "twentyDayHigh candles n \<ge> 0"
      using True n assms(3) by (rule twentyDayHigh_nonneg)
    note c = checkEntry_keeps_cash_nonneg[OF e(1) th assms(2) e(2),
               of sy "tradeAmountOf initialCapital pta" lv "candles ! n" "twentyDayLow candles n"]
    have cs: "cash ?s' = cash ?s3" and ps: "internalOpenPositions ?s' = internalOpenPositions ?s3"
      by (simp_all add: simulateDay_fields)
    have "\<forall>d\<in>set (dailyLog ?s'). d_cash d \<ge> 0"
      using ih3 c(1) cs by (subst simulateDay_dailyLog) simp
    then show ?thesis
      unfolding simulateUpto_Suc[OF True] using c cs ps by simp
  qed
qed

text \<open>
  C10, amended.  For at least 21 bars whose highs are nonnegative, a nonnegative
  \<open>initialCapital\<close> and a \<open>targetProfitPercent\<close> of at least \<open>-100\<close>, the cash is never
  negative during the replay: it is nonnegative in the loop state before and after every
  day, after the exit step of every day, in every entry of the daily ledger of the result,
  and at the end.
\<close>

theorem cash_never_negative:
  assumes "length candles \<ge> 21" and "initialCapital \<ge> 0"
      and "targetProfitPercent \<ge> - 100" and "\<forall>c\<in>set candles. high c \<ge> 0"
  shows "(\<forall>n\<le>length candles.
            cash (simulateUpto getTime symb candles initialCapital perTradeAmount exitStrategy
                    targetProfitPercent avgLevels n) \<ge> 0 \<and>
            (20 \<le> n \<and> n < length candles \<longrightarrow>
               cash (exitPhase getTime symb exitStrategy (candles ! n)
                       (simulateUpto getTime symb candles initialCapital perTradeAmount
                          exitStrategy targetProfitPercent avgLevels n)) \<ge> 0)) \<and>
         (\<exists>r. runBacktest getTime symb candles initialCapital perTradeAmount exitStrategy
                 targetProfitPercent avgLevels = Some r \<and>
              (\<forall>d\<in>set (r_dailyLog r). d_cash d \<ge> 0))"
proof -
  note inv = run_keeps_cash_nonneg[OF assms(2,3,4), of _ getTime symb perTradeAmount exitStrategy avgLevels]
  have a: "cash (exitPhase getTime symb exitStrategy (candles ! n)
                       (simulateUpto getTime symb candles initialCapital perTradeAmount
                          exitStrategy targetProfitPercent avgLevels n)) \<ge> 0"
    if "n \<le> length candles" for n
    using inv[OF that] by (intro exitPhase_keeps_cash_nonneg(1)) simp_all
  have b: "\<exists>r. runBacktest getTime symb candles initialCapital perTradeAmount exitStrategy
                 targetProfitPercent avgLevels = Some r \<and>
              (\<forall>d\<in>set (r_dailyLog r). d_cash d \<ge> 0)"
    using assms(1) inv[OF order_refl] by (simp add: runBacktest_def Let_def)
  show ?thesis using inv a b by simp
qed

theorem cash_never_negative_witness:
  "length ex1 \<ge> 21 \<and> (0::real) \<le> 1000 \<and> (- 100::real) \<le> 6 \<and>
   cash (simulateUpto (\<lambda>_. 0) ''X'' ex1 1000 (Some 100) LIFO 6 3 (length ex1)) \<ge> 0 \<and>
   cash (exitPhase (\<lambda>_. 0) ''X'' LIFO (ex1 ! 21)
           (simulateUpto (\<lambda>_. 0) ''X'' ex1 1000 (Some 100) LIFO 6 3 21)) \<ge> 0"
proof -
  have h1: "length ex1 \<ge> 21" by (simp add: ex1_def)
  have h2: "(0::real) \<le> 1000" by simp
  have h3: "(- 100::real) \<le> 6" by simp
  have h4: "\<forall>c\<in>set ex1. high c \<ge> 0" by (simp add: ex1_def flatBar_def)
  have l: "(21::nat) \<le> length ex1" "(21::nat) < length ex1" by (simp_all add: ex1_def)
  from cash_never_negative [OF h1 h2 h3 h4, of "\<lambda>_. 0" "''X''" "Some 100" LIFO 3]
  show ?thesis using h1 l by auto
qed

section \<open>Day profit\<close>

lemma run_profit_zero:
  "n \<le> length candles \<Longrightarrow>
   \<forall>d\<in>set (dailyLog (simulateUpto g sy candles ic pta es tpp lv n)). d_profit d = 0"
proof (induction n)
  case 0
  then show ?case by (simp add: simulateUpto_start simInit_simps)
next
  case (Suc n)
  show ?case
  proof (cases "20 \<le> n")
    case False
    then show ?thesis by (simp add: simulateUpto_start simInit_simps)
  next
    case True
    from Suc have ih: "\<forall>d\<in>set (dailyLog (simulateUpto g sy candles ic pta es tpp lv n)). d_profit d = 0"
      by simp
    show ?thesis
      unfolding simulateUpto_Suc[OF True]
      using ih by (subst simulateDay_dailyLog) simp
  qed
qed

text \<open>
  C5.  The specification has the \<open>dayProfit\<close> of the daily ledger filled so that the first
  entry has \<open>0\<close> and every later entry \<open>equity[i] - equity[i-1]\<close>; the source declares the
  field as the day's profit and pushes it as \<open>0\<close>, to be calculated later.  No statement of
  \<open>runBacktest\<close> assigns it again (\<open>run_profit_zero\<close>: it is \<open>0\<close> in every entry of every
  run).  On the run of \<open>ex1\<close> below the equity falls from 1010 to 1005 and the second
  entry's \<open>profit\<close> is \<open>0\<close>, not \<open>-5\<close>.
\<close>

theorem day_profit_not_filled:
  "length ex1 \<ge> 21 \<and>
   map_option (map d_equity \<circ> r_dailyLog)
     (runBacktest noTime ''X'' ex1 1000 (Some 100) LIFO 6 3) = Some [1010, 1005] \<and>
   map_option (map d_profit \<circ> r_dailyLog)
     (runBacktest noTime ''X'' ex1 1000 (Some 100) LIFO 6 3) = Some [0, 0] \<and>
   (0::real) \<noteq> 1005 - 1010"
proof -
  have l: "\<not> length ex1 < 21" "length ex1 \<ge> 21" by (simp_all add: ex1_def)
  have ta: "tradeAmountOf 1000 (Some 100) = 100" by (simp add: tradeAmountOf_def)
  show ?thesis
    using l by (simp add: runBacktest_def Let_def simulateUpto_ex1 ta day21)
qed

section \<open>Signal analyzer: breakout and low touch on one day\<close>











section \<open>CAGR\<close>

lemma cagrOf_positive:
  assumes "years > 0" and "fc > 0" and "ic > 0"
  shows "cagrOf ic fc years = Some (((fc / ic) powr (1 / years) - 1) * 100)"
  using assms by (simp add: cagrOf_def js_div_def math_pow_def)

lemma cagrOf_round_trip:
  assumes "years > 0" and "ic > 0" and "rate > - 1"
  shows "cagrOf ic (ic * (1 + rate) powr years) years = Some (rate * 100)"
proof -
  have fc: "ic * (1 + rate) powr years > 0" using assms by simp
  have "((ic * (1 + rate) powr years) / ic) powr (1 / years) = ((1 + rate) powr years) powr (1 / years)"
    using assms(2) by simp
  also have "\<dots> = (1 + rate) powr 1"
    using assms(1) by (simp add: powr_powr)
  also have "\<dots> = 1 + rate" using assms(3) by simp
  finally show ?thesis
    using cagrOf_positive[OF assms(1) fc assms(2)] by simp
qed

lemma calculateCAGR_agrees:
  assumes "days > 0" and "initial > 0" and "final > 0"
  shows "calculateCAGR initial final days = cagrOf initial final (days / 365.25)"
  using assms by (simp add: calculateCAGR_def cagrOf_def js_div_def Let_def)

lemma calculateCAGR_one_year: "calculateCAGR 100 110 365.25 = Some 10"
  by (simp add: calculateCAGR_def math_pow_def Let_def)

text \<open>
  C9.  In every result of \<open>runBacktest\<close>, with \<open>years\<close> the days between the dates of bar
  20 and of the last bar divided by 365.25: if \<open>years > 0\<close> and \<open>finalCapital > 0\<close> the
  \<open>cagr\<close> field is \<open>((finalCapital / initialCapital) ^ (1 / years) - 1) * 100\<close> (the real
  power for a positive \<open>initialCapital\<close>, \<open>Math.pow\<close> in general), otherwise it is \<open>0\<close>;
  and when \<open>finalCapital = initialCapital * (1 + r) ^ years\<close> for a positive
  \<open>initialCapital\<close>, \<open>years > 0\<close> and a rate \<open>r > -1\<close>, the field is \<open>r * 100\<close>.
\<close>

theorem cagr_formula_and_round_trip:
  assumes "runBacktest getTime symb candles initialCapital perTradeAmount exitStrategy
             targetProfitPercent avgLevels = Some r"
  shows "let days = real_of_int (getTime (date (candles ! (length candles - 1)))
                                 - getTime (date (candles ! 20))) / (1000 * 60 * 60 * 24);
             years = days / 365.25;
             fc = r_finalCapital r
         in (years > 0 \<and> fc > 0 \<longrightarrow>
               r_cagr r = (case js_div fc initialCapital of
                             None \<Rightarrow> None
                           | Some q \<Rightarrow> map_option (\<lambda>p. (p - 1) * 100) (math_pow q (1 / years)))) \<and>
            (years > 0 \<and> fc > 0 \<and> initialCapital > 0 \<longrightarrow>
               r_cagr r = Some (((fc / initialCapital) powr (1 / years) - 1) * 100)) \<and>
            (\<not> (years > 0 \<and> fc > 0) \<longrightarrow> r_cagr r = Some 0) \<and>
            (\<forall>rate. years > 0 \<and> initialCapital > 0 \<and> rate > - 1 \<and>
                    fc = initialCapital * (1 + rate) powr years \<longrightarrow>
               r_cagr r = Some (rate * 100))"
proof -
  let ?years = "durationYearsOf getTime candles"
  have y: "?years = real_of_int (getTime (date (candles ! (length candles - 1)))
                                 - getTime (date (candles ! 20))) / (1000 * 60 * 60 * 24) / 365.25"
    by (simp add: durationYearsOf_def Let_def)
  have c: "r_cagr r = cagrOf initialCapital (r_finalCapital r) ?years"
    using assms by (auto simp: runBacktest_def Let_def split: if_splits)
  have g: "?years > 0 \<and> r_finalCapital r > 0 \<longrightarrow>
      cagrOf initialCapital (r_finalCapital r) ?years =
        (case js_div (r_finalCapital r) initialCapital of
           None \<Rightarrow> None
         | Some q \<Rightarrow> map_option (\<lambda>p. (p - 1) * 100) (math_pow q (1 / ?years)))"
    by (simp add: cagrOf_def)
  have z: "\<not> (?years > 0 \<and> r_finalCapital r > 0) \<longrightarrow>
      cagrOf initialCapital (r_finalCapital r) ?years = Some 0"
    by (auto simp: cagrOf_def)
  show ?thesis
    unfolding Let_def y[symmetric] c
    using g z cagrOf_positive[of ?years "r_finalCapital r" initialCapital]
      cagrOf_round_trip[of ?years initialCapital]
    by auto
qed

lemma run_ex1_final:
  assumes "runBacktest g ''X'' ex1 1000 (Some 100) LIFO 6 3 = Some r"
  shows "r_finalCapital r = 1005"
proof -
  have l: "\<not> length ex1 < 21" by (simp add: ex1_def)
  have ta: "tradeAmountOf 1000 (Some 100) = 100" by (simp add: tradeAmountOf_def)
  have n: "close (ex1 ! (length ex1 - Suc 0)) = 21 / 2"
    by (simp add: ex1_def nth_append flatBar_def)
  from assms show ?thesis
    using l by (auto simp: runBacktest_def Let_def simulateUpto_ex1 ta day21 n flatBar_def
                  toOpenPosition_def)
qed

theorem cagr_formula_and_round_trip_witness:
  "map_option r_cagr (runBacktest exGetTime ''X'' ex1 1000 (Some 100) LIFO 6 3)
     = Some (Some (1 / 2)) \<and>
   map_option r_finalCapital (runBacktest exGetTime ''X'' ex1 1000 (Some 100) LIFO 6 3)
     = Some 1005 \<and>
   (1005::real) = 1000 * (1 + 1 / 200) powr 1 \<and>
   map_option r_cagr (runBacktest (\<lambda>_. 0) ''X'' ex1 1000 (Some 100) LIFO 6 3)
     = Some (Some 0)"
proof -
  have "runBacktest (\<lambda>_. 0) ''X'' ex1 1000 (Some 100) LIFO 6 3 \<noteq> None"
    by (simp add: runBacktest_def ex1_def Let_def)
  then obtain r0 where r0: "runBacktest (\<lambda>_. 0) ''X'' ex1 1000 (Some 100) LIFO 6 3 = Some r0"
    by blast
  from cagr_formula_and_round_trip [OF r0]
  have z: "r_cagr r0 = Some 0"
    by (simp add: Let_def)
  have "runBacktest exGetTime ''X'' ex1 1000 (Some 100) LIFO 6 3 \<noteq> None"
    by (simp add: runBacktest_def ex1_def Let_def)
  then obtain r where r: "runBacktest exGetTime ''X'' ex1 1000 (Some 100) LIFO 6 3 = Some r"
    by blast
  have fc: "r_finalCapital r = 1005" using r by (rule run_ex1_final)
  have d: "length ex1 = 22" "date (ex1 ! 21) = ''e''" "date (ex1 ! 20) = ''d''"
    by (simp_all add: ex1_def nth_append flatBar_def)
  from cagr_formula_and_round_trip [OF r]
  have "r_cagr r = Some (1 / 2)"
    by (simp add: Let_def fc d exGetTime_def js_div_def math_pow_def)
  with r fc r0 z show ?thesis by simp
qed

end
